theory Spec2Isabelle
  imports Main "HOL-Library.Word" "HOL-Library.List_Lexorder"
begin

unbundle bit_operations_syntax

section \<open>Strings and thrown values\<close>

text \<open>
  A JavaScript string is modelled by the \<^typ>\<open>string\<close> of its UTF-8 bytes, one
  \<^typ>\<open>char\<close> per byte; an ASCII string is its own model. \<open>undefined\<close> is
  \<^term>\<open>None\<close> wherever a JavaScript value may be missing.
\<close>

text \<open>
  What a \<open>throw\<close> or a rejected promise carries: an \<open>Error\<close> with its message, the
  engine's \<open>SyntaxError\<close> and \<open>TypeError\<close>, the error object of a database reply
  (\<open>throw userError\<close>), or no object at all (\<open>null\<close>, \<open>undefined\<close>).
\<close>

record db_error =
  code :: string
  message :: string

datatype js_error =
    Error string
  | SyntaxError
  | TypeError
  | Thrown db_error
  | ThrownNull
  | ThrownUndefined

section \<open>The platform: Node's \<open>crypto\<close> module\<close>

text \<open>
  \<open>crypto.createHmac('sha256', key).update(msg).digest()\<close> is HMAC (RFC 2104) over
  SHA-256 (FIPS 180-4), on the UTF-8 bytes of its arguments.
\<close>

type_synonym u32 = "32 word"

definition rotr :: "nat \<Rightarrow> u32 \<Rightarrow> u32" where
  "rotr n x = drop_bit n x OR push_bit (32 - n) x"

definition K256 :: "u32 list" where
  "K256 = [
   0x428A2F98, 0x71374491, 0xB5C0FBCF, 0xE9B5DBA5, 0x3956C25B, 0x59F111F1, 0x923F82A4, 0xAB1C5ED5,
   0xD807AA98, 0x12835B01, 0x243185BE, 0x550C7DC3, 0x72BE5D74, 0x80DEB1FE, 0x9BDC06A7, 0xC19BF174,
   0xE49B69C1, 0xEFBE4786, 0x0FC19DC6, 0x240CA1CC, 0x2DE92C6F, 0x4A7484AA, 0x5CB0A9DC, 0x76F988DA,
   0x983E5152, 0xA831C66D, 0xB00327C8, 0xBF597FC7, 0xC6E00BF3, 0xD5A79147, 0x06CA6351, 0x14292967,
   0x27B70A85, 0x2E1B2138, 0x4D2C6DFC, 0x53380D13, 0x650A7354, 0x766A0ABB, 0x81C2C92E, 0x92722C85,
   0xA2BFE8A1, 0xA81A664B, 0xC24B8B70, 0xC76C51A3, 0xD192E819, 0xD6990624, 0xF40E3585, 0x106AA070,
   0x19A4C116, 0x1E376C08, 0x2748774C, 0x34B0BCB5, 0x391C0CB3, 0x4ED8AA4A, 0x5B9CCA4F, 0x682E6FF3,
   0x748F82EE, 0x78A5636F, 0x84C87814, 0x8CC70208, 0x90BEFFFA, 0xA4506CEB, 0xBEF9A3F7, 0xC67178F2]"

definition H256 :: "u32 list" where
  "H256 = [0x6A09E667, 0xBB67AE85, 0x3C6EF372, 0xA54FF53A,
           0x510E527F, 0x9B05688C, 0x1F83D9AB, 0x5BE0CD19]"

definition ssig0 :: "u32 \<Rightarrow> u32" where
  "ssig0 x = rotr 7 x XOR rotr 18 x XOR drop_bit 3 x"

definition ssig1 :: "u32 \<Rightarrow> u32" where
  "ssig1 x = rotr 17 x XOR rotr 19 x XOR drop_bit 10 x"

definition bsig0 :: "u32 \<Rightarrow> u32" where
  "bsig0 x = rotr 2 x XOR rotr 13 x XOR rotr 22 x"

definition bsig1 :: "u32 \<Rightarrow> u32" where
  "bsig1 x = rotr 6 x XOR rotr 11 x XOR rotr 25 x"

definition ch :: "u32 \<Rightarrow> u32 \<Rightarrow> u32 \<Rightarrow> u32" where
  "ch x y z = (x AND y) XOR (NOT x AND z)"

definition maj :: "u32 \<Rightarrow> u32 \<Rightarrow> u32 \<Rightarrow> u32" where
  "maj x y z = (x AND y) XOR (x AND z) XOR (y AND z)"

definition be32 :: "string \<Rightarrow> u32" where
  "be32 bs = foldl (\<lambda>w c. push_bit 8 w OR of_char c) 0 bs"

fun words_of :: "nat \<Rightarrow> string \<Rightarrow> u32 list" where
  "words_of 0 bs = []"
| "words_of (Suc n) bs = be32 (take 4 bs) # words_of n (drop 4 bs)"

text \<open>The message schedule, newest word first: \<open>ws = [W\<^sub>t\<^sub>-\<^sub>1, W\<^sub>t\<^sub>-\<^sub>2, \<dots>]\<close>.\<close>

fun schedule :: "nat \<Rightarrow> u32 list \<Rightarrow> u32 list" where
  "schedule 0 ws = ws"
| "schedule (Suc n) ws =
     schedule n ((ssig1 (ws ! 1) + ws ! 6 + ssig0 (ws ! 14) + ws ! 15) # ws)"

definition sha_round :: "u32 list \<Rightarrow> u32 \<times> u32 \<Rightarrow> u32 list" where
  "sha_round st kw =
     (let a = st ! 0; b = st ! 1; c = st ! 2; d = st ! 3;
          e = st ! 4; f = st ! 5; g = st ! 6; h = st ! 7;
          t1 = h + bsig1 e + ch e f g + fst kw + snd kw;
          t2 = bsig0 a + maj a b c
      in [t1 + t2, a, b, c, d + t1, e, f, g])"

definition compress :: "u32 list \<Rightarrow> string \<Rightarrow> u32 list" where
  "compress hs block =
     map2 (+) hs (foldl sha_round hs (zip K256 (rev (schedule 48 (rev (words_of 16 block))))))"

definition be_bytes :: "nat \<Rightarrow> int \<Rightarrow> string" where
  "be_bytes n v = map (\<lambda>i. char_of (drop_bit (8 * i) v)) (rev [0..<n])"

definition sha_pad :: "string \<Rightarrow> string" where
  "sha_pad m =
     m @ [char_of (0x80 :: int)]
       @ replicate ((119 - length m mod 64) mod 64) (char_of (0 :: int))
       @ be_bytes 8 (8 * int (length m))"

fun sha_blocks :: "nat \<Rightarrow> u32 list \<Rightarrow> string \<Rightarrow> u32 list" where
  "sha_blocks 0 hs bs = hs"
| "sha_blocks (Suc n) hs bs = sha_blocks n (compress hs (take 64 bs)) (drop 64 bs)"

definition sha256 :: "string \<Rightarrow> string" where
  "sha256 m =
     (let p = sha_pad m
      in concat (map (\<lambda>w. be_bytes 4 (uint w)) (sha_blocks (length p div 64) H256 p)))"

definition xor_byte :: "int \<Rightarrow> char \<Rightarrow> char" where
  "xor_byte v c = char_of (of_char c XOR v)"

definition hmac_sha256 :: "string \<Rightarrow> string \<Rightarrow> string" where
  "hmac_sha256 key msg =
     (let k0 = (if length key > 64 then sha256 key else key);
          k = k0 @ replicate (64 - length k0) (char_of (0 :: int))
      in sha256 (map (xor_byte 0x5c) k @ sha256 (map (xor_byte 0x36) k @ msg)))"

text \<open>\<open>digest('hex')\<close>: two lower-case hexadecimal digits per byte.\<close>

definition hexdigit :: "nat \<Rightarrow> char" where
  "hexdigit n = ''0123456789abcdef'' ! (n mod 16)"

definition hex :: "string \<Rightarrow> string" where
  "hex bs = concat (map (\<lambda>c. [hexdigit (of_char c div 16), hexdigit (of_char c mod 16)]) bs)"

section \<open>The platform: \<open>URLSearchParams\<close>\<close>

text \<open>
  \<open>new URLSearchParams(init)\<close> for a string (WHATWG URL, section 5.1): one leading
  \<open>?\<close> is dropped, the rest is split at \<open>&\<close>, empty pieces are skipped, a
  piece is split at its first \<open>=\<close>, \<open>+\<close> becomes a space, percent escapes
  are decoded, and the bytes are decoded as UTF-8 with U+FFFD for every malformed
  sequence. The constructor does not throw.
\<close>

fun split_on :: "char \<Rightarrow> string \<Rightarrow> string list" where
  "split_on d [] = [[]]"
| "split_on d (c # cs) =
     (if c = d then [] # split_on d cs
      else (case split_on d cs of p # ps \<Rightarrow> (c # p) # ps | [] \<Rightarrow> [[c]]))"

definition hexval :: "char \<Rightarrow> nat option" where
  "hexval c =
     (let n = (of_char c :: nat)
      in if 48 \<le> n \<and> n \<le> 57 then Some (n - 48)
         else if 65 \<le> n \<and> n \<le> 70 then Some (n - 55)
         else if 97 \<le> n \<and> n \<le> 102 then Some (n - 87)
         else None)"

fun percent_decode :: "string \<Rightarrow> string" where
  "percent_decode [] = []"
| "percent_decode (c # cs) =
     (if c = CHR ''%'' then
        (case cs of
           h # l # rest \<Rightarrow>
             (case (hexval h, hexval l) of
                (Some a, Some b) \<Rightarrow> char_of (16 * a + b) # percent_decode rest
              | _ \<Rightarrow> c # percent_decode cs)
         | _ \<Rightarrow> c # percent_decode cs)
      else c # percent_decode cs)"

definition fffd :: string where
  "fffd = [char_of (0xEF :: nat), char_of (0xBF :: nat), char_of (0xBD :: nat)]"

text \<open>
  The UTF-8 decoder's state: how many continuation bytes are still needed, the bounds
  for the next one, and the bytes of the sequence read so far.
\<close>

type_synonym utf8_state = "nat \<times> nat \<times> nat \<times> string"

definition utf8_lead :: "char \<Rightarrow> string \<times> utf8_state" where
  "utf8_lead c =
     (let b = (of_char c :: nat)
      in if b \<le> 0x7F then ([c], (0, 0x80, 0xBF, []))
         else if 0xC2 \<le> b \<and> b \<le> 0xDF then ([], (1, 0x80, 0xBF, [c]))
         else if 0xE0 \<le> b \<and> b \<le> 0xEF then
           ([], (2, if b = 0xE0 then 0xA0 else 0x80, if b = 0xED then 0x9F else 0xBF, [c]))
         else if 0xF0 \<le> b \<and> b \<le> 0xF4 then
           ([], (3, if b = 0xF0 then 0x90 else 0x80, if b = 0xF4 then 0x8F else 0xBF, [c]))
         else (fffd, (0, 0x80, 0xBF, [])))"

definition utf8_step :: "utf8_state \<Rightarrow> char \<Rightarrow> string \<times> utf8_state" where
  "utf8_step st c =
     (case st of (needed, lo, hi, seen) \<Rightarrow>
        if needed = 0 then utf8_lead c
        else if lo \<le> (of_char c :: nat) \<and> (of_char c :: nat) \<le> hi then
          (if needed = 1 then (seen @ [c], (0, 0x80, 0xBF, []))
           else ([], (needed - 1, 0x80, 0xBF, seen @ [c])))
        else (fffd @ fst (utf8_lead c), snd (utf8_lead c)))"

fun utf8_run :: "utf8_state \<Rightarrow> string \<Rightarrow> string" where
  "utf8_run st [] = (if fst st = 0 then [] else fffd)"
| "utf8_run st (c # cs) = fst (utf8_step st c) @ utf8_run (snd (utf8_step st c)) cs"

definition utf8_decode :: "string \<Rightarrow> string" where
  "utf8_decode bs = utf8_run (0, 0x80, 0xBF, []) bs"

definition plus_to_space :: "string \<Rightarrow> string" where
  "plus_to_space s = map (\<lambda>c. if c = CHR ''+'' then CHR '' '' else c) s"

definition decode_component :: "string \<Rightarrow> string" where
  "decode_component s = utf8_decode (percent_decode (plus_to_space s))"

fun split_pair :: "string \<Rightarrow> string \<times> string" where
  "split_pair [] = ([], [])"
| "split_pair (c # cs) =
     (if c = CHR ''='' then ([], cs) else (c # fst (split_pair cs), snd (split_pair cs)))"

definition parse_pair :: "string \<Rightarrow> string \<times> string" where
  "parse_pair piece =
     (decode_component (fst (split_pair piece)), decode_component (snd (split_pair piece)))"

definition URLSearchParams :: "string \<Rightarrow> (string \<times> string) list" where
  "URLSearchParams init =
     map parse_pair
       (filter (\<lambda>piece. piece \<noteq> [])
          (split_on CHR ''&'' (case init of c # cs \<Rightarrow> if c = CHR ''?'' then cs else init | [] \<Rightarrow> [])))"

text \<open>\<open>get\<close> returns the first value of the name or \<open>null\<close>; \<open>delete\<close> removes every
  pair of the name; \<open>entries\<close> lists the pairs in order.\<close>

definition get :: "(string \<times> string) list \<Rightarrow> string \<Rightarrow> string option" where
  "get params key = map_of params key"

definition delete :: "(string \<times> string) list \<Rightarrow> string \<Rightarrow> (string \<times> string) list" where
  "delete params key = filter (\<lambda>kv. fst kv \<noteq> key) params"

definition entries :: "(string \<times> string) list \<Rightarrow> (string \<times> string) list" where
  "entries params = params"

section \<open>The platform: \<open>Array.prototype.sort\<close>, \<open>join\<close>\<close>

text \<open>
  \<open>sort(cmp)\<close> is stable: an element goes behind a later one only where the
  comparator puts it there (a positive result). \<open>String.prototype.localeCompare\<close>
  depends on the host's locale and is a parameter.
\<close>

fun insert_by :: "('a \<Rightarrow> 'a \<Rightarrow> int) \<Rightarrow> 'a \<Rightarrow> 'a list \<Rightarrow> 'a list" where
  "insert_by cmp x [] = [x]"
| "insert_by cmp x (y # ys) = (if cmp x y > 0 then y # insert_by cmp x ys else x # y # ys)"

definition sort_by :: "('a \<Rightarrow> 'a \<Rightarrow> int) \<Rightarrow> 'a list \<Rightarrow> 'a list" where
  "sort_by cmp xs = foldr (insert_by cmp) xs []"

fun join :: "string \<Rightarrow> string list \<Rightarrow> string" where
  "join sep [] = []"
| "join sep [x] = x"
| "join sep (x # y # ys) = x @ sep @ join sep (y # ys)"

section \<open>The platform: \<open>JSON.parse\<close>\<close>

text \<open>
  \<open>JSON.parse\<close> (ECMA-404) as a lexer feeding a stack machine, one character at a
  time; \<^term>\<open>None\<close> is its \<open>SyntaxError\<close>. A number keeps its literal (its
  double-precision value is not computed). An object keeps its members in order;
  reading a property takes the last member of that name.
\<close>

datatype json =
    JNull
  | JBool bool
  | JNumber string
  | JString string
  | JArray "json list"
  | JObject "(string \<times> json) list"

datatype token = TLBrace | TRBrace | TLBrack | TRBrack | TColon | TComma | TScalar json

datatype lexer =
    LIdle
  | LLit string json
  | LNum string
  | LStr string "nat option"
  | LEsc string "nat option"
  | LUni string "nat option" "nat list"

definition is_ws :: "char \<Rightarrow> bool" where
  "is_ws c = (c = CHR '' '' \<or> c = CHR 0x09 \<or> c = CHR 0x0A \<or> c = CHR 0x0D)"

definition is_digit :: "char \<Rightarrow> bool" where
  "is_digit c = (48 \<le> (of_char c :: nat) \<and> (of_char c :: nat) \<le> 57)"

definition is_numchar :: "char \<Rightarrow> bool" where
  "is_numchar c =
     (is_digit c \<or> c = CHR ''-'' \<or> c = CHR ''+'' \<or> c = CHR ''.'' \<or> c = CHR ''e'' \<or> c = CHR ''E'')"

definition exp_part :: "string \<Rightarrow> bool" where
  "exp_part r =
     (case r of
        [] \<Rightarrow> True
      | e # r' \<Rightarrow>
          (e = CHR ''e'' \<or> e = CHR ''E'') \<and>
          (case r' of
             [] \<Rightarrow> False
           | s # t \<Rightarrow>
               if s = CHR ''+'' \<or> s = CHR ''-'' then t \<noteq> [] \<and> list_all is_digit t
               else list_all is_digit r'))"

definition frac_part :: "string \<Rightarrow> bool" where
  "frac_part r =
     (case r of
        [] \<Rightarrow> True
      | d # r' \<Rightarrow>
          if d = CHR ''.'' then takeWhile is_digit r' \<noteq> [] \<and> exp_part (dropWhile is_digit r')
          else exp_part r)"

definition json_number :: "string \<Rightarrow> bool" where
  "json_number s =
     (case (case s of [] \<Rightarrow> [] | c # cs \<Rightarrow> if c = CHR ''-'' then cs else s) of
        [] \<Rightarrow> False
      | d # ds \<Rightarrow>
          is_digit d \<and>
          (if d = CHR ''0'' then frac_part ds else frac_part (dropWhile is_digit ds)))"

text \<open>
  The bytes of a code point. An unpaired surrogate from a \<open>\u\<close> escape, which a
  JavaScript string may hold, is kept in the same three-byte form.
\<close>

definition utf8_encode :: "nat \<Rightarrow> string" where
  "utf8_encode cp =
     (if cp < 0x80 then [char_of cp]
      else if cp < 0x800 then [char_of (0xC0 + cp div 64), char_of (0x80 + cp mod 64)]
      else if cp < 0x10000 then
        [char_of (0xE0 + cp div 4096), char_of (0x80 + cp div 64 mod 64), char_of (0x80 + cp mod 64)]
      else
        [char_of (0xF0 + cp div 262144), char_of (0x80 + cp div 4096 mod 64),
         char_of (0x80 + cp div 64 mod 64), char_of (0x80 + cp mod 64)])"

definition flush :: "nat option \<Rightarrow> string" where
  "flush pend = (case pend of None \<Rightarrow> [] | Some h \<Rightarrow> utf8_encode h)"

definition simple_escape :: "char \<Rightarrow> char option" where
  "simple_escape c =
     (if c = CHR 0x22 \<or> c = CHR 0x5C \<or> c = CHR ''/'' then Some c
      else if c = CHR ''b'' then Some (CHR 0x08)
      else if c = CHR ''f'' then Some (CHR 0x0C)
      else if c = CHR ''n'' then Some (CHR 0x0A)
      else if c = CHR ''r'' then Some (CHR 0x0D)
      else if c = CHR ''t'' then Some (CHR 0x09)
      else None)"

definition unicode_escape :: "string \<Rightarrow> nat option \<Rightarrow> nat \<Rightarrow> lexer" where
  "unicode_escape acc pend cu =
     (case pend of
        Some h \<Rightarrow>
          if 0xDC00 \<le> cu \<and> cu \<le> 0xDFFF
          then LStr (acc @ utf8_encode (0x10000 + (h - 0xD800) * 0x400 + (cu - 0xDC00))) None
          else if 0xD800 \<le> cu \<and> cu \<le> 0xDBFF then LStr (acc @ utf8_encode h) (Some cu)
          else LStr (acc @ utf8_encode h @ utf8_encode cu) None
      | None \<Rightarrow>
          if 0xD800 \<le> cu \<and> cu \<le> 0xDBFF then LStr acc (Some cu)
          else LStr (acc @ utf8_encode cu) None)"

definition lex_idle :: "char \<Rightarrow> (lexer \<times> token list) option" where
  "lex_idle c =
     (if is_ws c then Some (LIdle, [])
      else if c = CHR ''{'' then Some (LIdle, [TLBrace])
      else if c = CHR ''}'' then Some (LIdle, [TRBrace])
      else if c = CHR ''['' then Some (LIdle, [TLBrack])
      else if c = CHR '']'' then Some (LIdle, [TRBrack])
      else if c = CHR '':'' then Some (LIdle, [TColon])
      else if c = CHR '','' then Some (LIdle, [TComma])
      else if c = CHR 0x22 then Some (LStr [] None, [])
      else if c = CHR ''-'' \<or> is_digit c then Some (LNum [c], [])
      else if c = CHR ''n'' then Some (LLit ''ull'' JNull, [])
      else if c = CHR ''t'' then Some (LLit ''rue'' (JBool True), [])
      else if c = CHR ''f'' then Some (LLit ''alse'' (JBool False), [])
      else None)"

definition lex_step :: "lexer \<Rightarrow> char \<Rightarrow> (lexer \<times> token list) option" where
  "lex_step l c =
     (case l of
        LIdle \<Rightarrow> lex_idle c
      | LLit rest v \<Rightarrow>
          (case rest of
             [] \<Rightarrow> None
           | e # es \<Rightarrow>
               if c \<noteq> e then None
               else if es = [] then Some (LIdle, [TScalar v])
               else Some (LLit es v, []))
      | LNum lx \<Rightarrow>
          if is_numchar c then Some (LNum (lx @ [c]), [])
          else if json_number lx then
            (case lex_idle c of
               None \<Rightarrow> None
             | Some lt \<Rightarrow> Some (fst lt, TScalar (JNumber lx) # snd lt))
          else None
      | LStr acc pend \<Rightarrow>
          if c = CHR 0x22 then Some (LIdle, [TScalar (JString (acc @ flush pend))])
          else if c = CHR 0x5C then Some (LEsc acc pend, [])
          else if (of_char c :: nat) < 0x20 then None
          else Some (LStr (acc @ flush pend @ [c]) None, [])
      | LEsc acc pend \<Rightarrow>
          if c = CHR ''u'' then Some (LUni acc pend [], [])
          else
            (case simple_escape c of
               None \<Rightarrow> None
             | Some d \<Rightarrow> Some (LStr (acc @ flush pend @ [d]) None, []))
      | LUni acc pend ds \<Rightarrow>
          (case hexval c of
             None \<Rightarrow> None
           | Some d \<Rightarrow>
               if length ds = 3
               then Some (unicode_escape acc pend (foldl (\<lambda>n x. 16 * n + x) 0 (ds @ [d])), [])
               else Some (LUni acc pend (ds @ [d]), [])))"

definition lex_end :: "lexer \<Rightarrow> token list option" where
  "lex_end l =
     (case l of
        LIdle \<Rightarrow> Some []
      | LNum lx \<Rightarrow> if json_number lx then Some [TScalar (JNumber lx)] else None
      | _ \<Rightarrow> None)"

datatype frame =
    FArray "json list"
  | FObject "(string \<times> json) list" "string option"

datatype phase = ExpValue | ExpValueOrClose | ExpKeyOrClose | ExpKey | ExpColon | ExpCommaOrClose

datatype parser =
    Parsing "frame list" phase
  | Done json

definition push_value :: "json \<Rightarrow> frame list \<Rightarrow> parser option" where
  "push_value v fs =
     (case fs of
        [] \<Rightarrow> Some (Done v)
      | FArray xs # fs' \<Rightarrow> Some (Parsing (FArray (xs @ [v]) # fs') ExpCommaOrClose)
      | FObject es None # fs' \<Rightarrow> None
      | FObject es (Some k) # fs' \<Rightarrow>
          Some (Parsing (FObject (es @ [(k, v)]) None # fs') ExpCommaOrClose))"

definition close_array :: "frame list \<Rightarrow> parser option" where
  "close_array fs = (case fs of FArray xs # fs' \<Rightarrow> push_value (JArray xs) fs' | _ \<Rightarrow> None)"

definition close_object :: "frame list \<Rightarrow> parser option" where
  "close_object fs =
     (case fs of FObject es None # fs' \<Rightarrow> push_value (JObject es) fs' | _ \<Rightarrow> None)"

definition start_value :: "frame list \<Rightarrow> bool \<Rightarrow> token \<Rightarrow> parser option" where
  "start_value fs may_close t =
     (case t of
        TScalar v \<Rightarrow> push_value v fs
      | TLBrack \<Rightarrow> Some (Parsing (FArray [] # fs) ExpValueOrClose)
      | TLBrace \<Rightarrow> Some (Parsing (FObject [] None # fs) ExpKeyOrClose)
      | TRBrack \<Rightarrow> if may_close then close_array fs else None
      | _ \<Rightarrow> None)"

definition start_key :: "frame list \<Rightarrow> bool \<Rightarrow> token \<Rightarrow> parser option" where
  "start_key fs may_close t =
     (case t of
        TScalar (JString k) \<Rightarrow>
          (case fs of
             FObject es None # fs' \<Rightarrow> Some (Parsing (FObject es (Some k) # fs') ExpColon)
           | _ \<Rightarrow> None)
      | TRBrace \<Rightarrow> if may_close then close_object fs else None
      | _ \<Rightarrow> None)"

definition after_value :: "frame list \<Rightarrow> token \<Rightarrow> parser option" where
  "after_value fs t =
     (case t of
        TComma \<Rightarrow>
          (case fs of
             FArray xs # fs' \<Rightarrow> Some (Parsing fs ExpValue)
           | FObject es k # fs' \<Rightarrow> Some (Parsing fs ExpKey)
           | [] \<Rightarrow> None)
      | TRBrack \<Rightarrow> close_array fs
      | TRBrace \<Rightarrow> close_object fs
      | _ \<Rightarrow> None)"

definition parse_step :: "parser \<Rightarrow> token \<Rightarrow> parser option" where
  "parse_step p t =
     (case p of
        Done v \<Rightarrow> None
      | Parsing fs ph \<Rightarrow>
          (case ph of
             ExpValue \<Rightarrow> start_value fs False t
           | ExpValueOrClose \<Rightarrow> start_value fs True t
           | ExpKeyOrClose \<Rightarrow> start_key fs True t
           | ExpKey \<Rightarrow> start_key fs False t
           | ExpColon \<Rightarrow> (if t = TColon then Some (Parsing fs ExpValue) else None)
           | ExpCommaOrClose \<Rightarrow> after_value fs t))"

fun parse_tokens :: "parser \<Rightarrow> token list \<Rightarrow> parser option" where
  "parse_tokens p [] = Some p"
| "parse_tokens p (t # ts) =
     (case parse_step p t of None \<Rightarrow> None | Some p' \<Rightarrow> parse_tokens p' ts)"

fun json_run :: "lexer \<Rightarrow> parser \<Rightarrow> string \<Rightarrow> json option" where
  "json_run l p [] =
     (case lex_end l of
        None \<Rightarrow> None
      | Some ts \<Rightarrow> (case parse_tokens p ts of Some (Done v) \<Rightarrow> Some v | _ \<Rightarrow> None))"
| "json_run l p (c # cs) =
     (case lex_step l c of
        None \<Rightarrow> None
      | Some lt \<Rightarrow>
          (case parse_tokens p (snd lt) of
             None \<Rightarrow> None
           | Some p' \<Rightarrow> json_run (fst lt) p' cs))"

definition JSON_parse :: "string \<Rightarrow> json option" where
  "JSON_parse text = json_run LIdle (Parsing [] ExpValue) text"

text \<open>
  Reading the property \<open>key\<close> of a parsed value: \<open>null\<close> has no properties
  (\<open>TypeError\<close>); an object gives its own member or \<open>undefined\<close>; an array, a string,
  a number and a boolean have no property of the names read here.
\<close>

definition ownProperty :: "json \<Rightarrow> string \<Rightarrow> json option" where
  "ownProperty v key = (case v of JObject es \<Rightarrow> map_of (rev es) key | _ \<Rightarrow> None)"

definition getProp :: "json \<Rightarrow> string \<Rightarrow> js_error + json option" where
  "getProp v key = (if v = JNull then Inl TypeError else Inr (ownProperty v key))"

section \<open>\<open>services/telegramBot.js\<close>: \<open>verifyTelegramData\<close>\<close>

text \<open>
  The user object built from the \<open>user\<close> parameter. A field is a parsed JSON value,
  \<^term>\<open>Some JNull\<close> for \<open>null\<close>, or \<^term>\<open>None\<close> for \<open>undefined\<close>.
\<close>

record tg_user =
  id' :: "json option"
  username :: "json option"
  first_name :: "json option"
  last_name :: "json option"

record verified =
  user :: "tg_user option"

text \<open>\<open>data.get('user') ? JSON.parse(data.get('user')).name : null\<close>; the empty string
  is falsy.\<close>

definition userField :: "(string \<times> string) list \<Rightarrow> string \<Rightarrow> js_error + json option" where
  "userField data key =
     (case get data ''user'' of
        None \<Rightarrow> Inr (Some JNull)
      | Some u \<Rightarrow>
          if u = [] then Inr (Some JNull)
          else (case JSON_parse u of None \<Rightarrow> Inl SyntaxError | Some v \<Rightarrow> getProp v key))"

definition dataCheckString ::
  "(string \<Rightarrow> string \<Rightarrow> int) \<Rightarrow> (string \<times> string) list \<Rightarrow> string" where
  "dataCheckString localeCompare data =
     join [CHR 0x0A]
       (map (\<lambda>(key, value). key @ ''='' @ value)
          (sort_by (\<lambda>a b. localeCompare (fst a) (fst b)) (entries data)))"

definition parseUser :: "(string \<times> string) list \<Rightarrow> js_error + tg_user" where
  "parseUser data =
     (case userField data ''id'' of
        Inl e \<Rightarrow> Inl e
      | Inr i \<Rightarrow>
     (case userField data ''username'' of
        Inl e \<Rightarrow> Inl e
      | Inr u \<Rightarrow>
     (case userField data ''first_name'' of
        Inl e \<Rightarrow> Inl e
      | Inr f \<Rightarrow>
     (case userField data ''last_name'' of
        Inl e \<Rightarrow> Inl e
      | Inr l \<Rightarrow> Inr \<lparr>id' = i, username = u, first_name = f, last_name = l\<rparr>))))"

text \<open>
  The body of the \<open>try\<close> block. \<open>TELEGRAM_BOT_TOKEN\<close> is \<open>process.env\<close>'s entry,
  \<^term>\<open>None\<close> when the variable is unset: \<open>update(undefined)\<close> throws a
  \<open>TypeError\<close>.
\<close>

definition verifyTelegramData_try ::
  "(string \<Rightarrow> string \<Rightarrow> int) \<Rightarrow> string option \<Rightarrow> string \<Rightarrow> js_error + tg_user" where
  "verifyTelegramData_try localeCompare TELEGRAM_BOT_TOKEN initData =
     (let data = URLSearchParams initData;
          hash = get data ''hash'';
          data = delete data ''hash'';
          dataCheckString = dataCheckString localeCompare data
      in case TELEGRAM_BOT_TOKEN of
           None \<Rightarrow> Inl TypeError
         | Some token \<Rightarrow>
             (let secretKey = hmac_sha256 ''WebAppData'' token;
                  calculatedHash = hex (hmac_sha256 secretKey dataCheckString)
              in if Some calculatedHash \<noteq> hash then Inl (Error ''Invalid hash'')
                 else parseUser data))"

text \<open>The \<open>catch\<close> block turns every thrown value into \<open>{ user: null }\<close>.\<close>

definition verifyTelegramData ::
  "(string \<Rightarrow> string \<Rightarrow> int) \<Rightarrow> string option \<Rightarrow> string \<Rightarrow> verified" where
  "verifyTelegramData localeCompare TELEGRAM_BOT_TOKEN initData =
     (case verifyTelegramData_try localeCompare TELEGRAM_BOT_TOKEN initData of
        Inl error \<Rightarrow> \<lparr>user = None\<rparr>
      | Inr u \<Rightarrow> \<lparr>user = Some u\<rparr>)"

text \<open>
  The function is \<open>async\<close>: what it returns is a promise, fulfilled with a value
  (\<^term>\<open>Inr\<close>) or rejected with what was thrown (\<^term>\<open>Inl\<close>). The \<open>catch\<close> block
  passes the thrown value to \<open>console.error\<close>, reading no property of it, and returns
  \<open>{ user: null }\<close>.
\<close>

definition verifyTelegramData_catch :: "js_error \<Rightarrow> js_error + verified" where
  "verifyTelegramData_catch err = Inr \<lparr>user = None\<rparr>"

definition verifyTelegramData_async ::
  "(string \<Rightarrow> string \<Rightarrow> int) \<Rightarrow> string option \<Rightarrow> string \<Rightarrow> js_error + verified" where
  "verifyTelegramData_async localeCompare TELEGRAM_BOT_TOKEN initData =
     (case verifyTelegramData_try localeCompare TELEGRAM_BOT_TOKEN initData of
        Inl err \<Rightarrow> verifyTelegramData_catch err
      | Inr u \<Rightarrow> Inr \<lparr>user = Some u\<rparr>)"

text \<open>The value of \<open>calculatedHash\<close> for a token and an init-data string.\<close>

definition calculatedHash :: "(string \<Rightarrow> string \<Rightarrow> int) \<Rightarrow> string \<Rightarrow> string \<Rightarrow> string" where
  "calculatedHash localeCompare token initData =
     hex (hmac_sha256 (hmac_sha256 ''WebAppData'' token)
            (dataCheckString localeCompare (delete (URLSearchParams initData) ''hash'')))"

section \<open>\<open>index.js\<close>: the \<open>telegramAuth\<close> middleware\<close>

text \<open>
  The Supabase client and \<open>jsonwebtoken\<close> are outside the repository: their calls
  are parameters acting on a world \<open>'w\<close>. A query answers \<open>{ data, error }\<close>;
  \<open>jwt.sign\<close> returns the token or throws.
\<close>

record new_user =
  telegram_id :: "json option"
  username :: "json option"
  first_name :: "json option"
  last_name :: "json option"
  balance :: int
  level :: string
  level_points :: int

record user_row = new_user +
  id' :: string

record query_result =
  data :: "user_row option"
  error :: "db_error option"

record 'w supabase =
  select_single :: "json option \<Rightarrow> 'w \<Rightarrow> (js_error + query_result) \<times> 'w"
  insert_single :: "new_user \<Rightarrow> 'w \<Rightarrow> (js_error + query_result) \<times> 'w"
  jwt_sign :: "string \<Rightarrow> json option \<Rightarrow> js_error + string"

record req_user =
  id' :: string
  telegramId :: "json option"

datatype auth_result =
    Responded nat string
  | Next req_user string

definition newUserRow :: "tg_user \<Rightarrow> new_user" where
  "newUserRow u =
     \<lparr>telegram_id = tg_user.id' u,
      username = tg_user.username u,
      first_name = tg_user.first_name u,
      last_name = tg_user.last_name u,
      balance = 0,
      level = ''Alpha Pup'',
      level_points = 0\<rparr>"

definition issueToken ::
  "'w supabase \<Rightarrow> string \<Rightarrow> tg_user \<Rightarrow> 'w \<Rightarrow> (js_error + auth_result) \<times> 'w" where
  "issueToken db userId u w =
     (case jwt_sign db userId (tg_user.id' u) of
        Inl e \<Rightarrow> (Inl e, w)
      | Inr token \<Rightarrow> (Inr (Next \<lparr>id' = userId, telegramId = tg_user.id' u\<rparr> token), w))"

definition createUser ::
  "'w supabase \<Rightarrow> tg_user \<Rightarrow> 'w \<Rightarrow> (js_error + auth_result) \<times> 'w" where
  "createUser db u w =
     (case insert_single db (newUserRow u) w of
        (Inl e, w') \<Rightarrow> (Inl e, w')
      | (Inr created, w') \<Rightarrow>
          (case error created of
             Some createError \<Rightarrow> (Inl (Thrown createError), w')
           | None \<Rightarrow>
               (case data created of
                  None \<Rightarrow> (Inl TypeError, w')
                | Some newUser \<Rightarrow> issueToken db (user_row.id' newUser) u w')))"

definition getOrCreateUser ::
  "'w supabase \<Rightarrow> tg_user \<Rightarrow> 'w \<Rightarrow> (js_error + auth_result) \<times> 'w" where
  "getOrCreateUser db u w =
     (case select_single db (tg_user.id' u) w of
        (Inl e, w') \<Rightarrow> (Inl e, w')
      | (Inr found, w') \<Rightarrow>
          (case error found of
             Some userError \<Rightarrow>
               if code userError \<noteq> ''PGRST116'' then (Inl (Thrown userError), w')
               else (case data found of
                       None \<Rightarrow> createUser db u w'
                     | Some existingUser \<Rightarrow> issueToken db (user_row.id' existingUser) u w')
           | None \<Rightarrow>
               (case data found of
                  None \<Rightarrow> createUser db u w'
                | Some existingUser \<Rightarrow> issueToken db (user_row.id' existingUser) u w')))"

text \<open>\<open>header\<close> is \<open>req.headers['x-telegram-init-data']\<close>; a missing header and the
  empty string are both falsy.\<close>

definition telegramAuth_try ::
  "'w supabase \<Rightarrow> (string \<Rightarrow> string \<Rightarrow> int) \<Rightarrow> string option \<Rightarrow> string option \<Rightarrow> 'w
     \<Rightarrow> (js_error + auth_result) \<times> 'w" where
  "telegramAuth_try db localeCompare TELEGRAM_BOT_TOKEN header w =
     (case header of
        None \<Rightarrow> (Inr (Responded 401 ''No Telegram data provided''), w)
      | Some initData \<Rightarrow>
          if initData = [] then (Inr (Responded 401 ''No Telegram data provided''), w)
          else
            (case user (verifyTelegramData localeCompare TELEGRAM_BOT_TOKEN initData) of
               None \<Rightarrow> (Inr (Responded 401 ''Invalid Telegram data''), w)
             | Some u \<Rightarrow> getOrCreateUser db u w))"

definition telegramAuth ::
  "'w supabase \<Rightarrow> (string \<Rightarrow> string \<Rightarrow> int) \<Rightarrow> string option \<Rightarrow> string option \<Rightarrow> 'w
     \<Rightarrow> auth_result \<times> 'w" where
  "telegramAuth db localeCompare TELEGRAM_BOT_TOKEN header w =
     (case telegramAuth_try db localeCompare TELEGRAM_BOT_TOKEN header w of
        (Inl err, w') \<Rightarrow> (Responded 401 ''Authentication failed'', w')
      | (Inr result, w') \<Rightarrow> (result, w'))"

section \<open>\<open>routes/progress.js\<close>\<close>

text \<open>
  The \<open>UserLevel\<close> model and \<open>telegramService\<close> are not among the sources. The
  record holds the fields the sources read; the model's and the service's methods are
  parameters acting on a world \<open>'w\<close>, each returning its result or throwing. A method
  that changes the document returns the document as it is afterwards.
\<close>

record achievement =
  icon :: string
  name :: string
  description :: string

record userLevel =
  userId :: string
  level :: int
  experience :: int
  experienceToNextLevel :: int
  streak :: int
  lastActive :: int
  achievements :: "achievement list"

record 'w progress_deps =
  findOne :: "string \<Rightarrow> 'w \<Rightarrow> (js_error + userLevel option) \<times> 'w"
  new_UserLevel :: "string \<Rightarrow> userLevel"
  save :: "userLevel \<Rightarrow> 'w \<Rightarrow> (js_error + userLevel) \<times> 'w"
  addExperience :: "json option \<Rightarrow> userLevel \<Rightarrow> 'w \<Rightarrow> (js_error + userLevel) \<times> 'w"
  updateStreak :: "userLevel \<Rightarrow> 'w \<Rightarrow> (js_error + userLevel) \<times> 'w"
  handleLevelUp :: "string \<Rightarrow> int \<Rightarrow> 'w \<Rightarrow> (js_error + unit) \<times> 'w"
  syncUserProgress :: "string \<Rightarrow> 'w \<Rightarrow> (js_error + unit) \<times> 'w"

datatype body =
    JsonUserLevel userLevel
  | JsonAchievements "achievement list"
  | JsonMessage string
  | JsonError string js_error

record response =
  status :: nat
  body :: body

text \<open>
  \<open>res.json(x)\<close> answers with status 200. The \<open>catch\<close> block answers 500 with its
  message and \<open>error.message\<close>; reading \<open>message\<close> of a thrown \<open>null\<close> or
  \<open>undefined\<close> is itself a \<open>TypeError\<close>, which nothing catches. A handler's result is
  the response it sent (\<^term>\<open>Inr\<close>) or the exception that escaped it (\<^term>\<open>Inl\<close>).
\<close>

definition json_response :: "body \<Rightarrow> response" where
  "json_response b = \<lparr>status = 200, body = b\<rparr>"

definition caught :: "string \<Rightarrow> js_error \<Rightarrow> js_error + response" where
  "caught msg e =
     (if e = ThrownNull \<or> e = ThrownUndefined then Inl TypeError
      else Inr \<lparr>status = 500, body = JsonError msg e\<rparr>)"

definition get_progress_try ::
  "'w progress_deps \<Rightarrow> string \<Rightarrow> 'w \<Rightarrow> (js_error + response) \<times> 'w" where
  "get_progress_try deps uid w =
     (case findOne deps uid w of
        (Inl e, w') \<Rightarrow> (Inl e, w')
      | (Inr (Some found), w') \<Rightarrow> (Inr (json_response (JsonUserLevel found)), w')
      | (Inr None, w') \<Rightarrow>
          (case save deps (new_UserLevel deps uid) w' of
             (Inl e, w'') \<Rightarrow> (Inl e, w'')
           | (Inr saved, w'') \<Rightarrow> (Inr (json_response (JsonUserLevel saved)), w'')))"

definition get_progress ::
  "'w progress_deps \<Rightarrow> string \<Rightarrow> 'w \<Rightarrow> (js_error + response) \<times> 'w" where
  "get_progress deps uid w =
     (case get_progress_try deps uid w of
        (Inl err, w') \<Rightarrow> (caught ''Error fetching progress'' err, w')
      | (Inr res, w') \<Rightarrow> (Inr res, w'))"

text \<open>\<open>POST /experience\<close>: the level is read before the two updates and compared
  after them.\<close>

definition notifyLevelUp ::
  "'w progress_deps \<Rightarrow> string \<Rightarrow> int \<Rightarrow> userLevel \<Rightarrow> 'w \<Rightarrow> (js_error + response) \<times> 'w" where
  "notifyLevelUp deps uid oldLevel u w =
     (if level u > oldLevel then
        (case handleLevelUp deps uid (level u) w of
           (Inl e, w') \<Rightarrow> (Inl e, w')
         | (Inr done, w') \<Rightarrow> (Inr (json_response (JsonUserLevel u)), w'))
      else (Inr (json_response (JsonUserLevel u)), w))"

definition post_experience_try ::
  "'w progress_deps \<Rightarrow> string \<Rightarrow> json option \<Rightarrow> 'w \<Rightarrow> (js_error + response) \<times> 'w" where
  "post_experience_try deps uid amount w =
     (case findOne deps uid w of
        (Inl e, w1) \<Rightarrow> (Inl e, w1)
      | (Inr found, w1) \<Rightarrow>
          (let u0 = (case found of None \<Rightarrow> new_UserLevel deps uid | Some u \<Rightarrow> u);
               oldLevel = level u0
           in case addExperience deps amount u0 w1 of
                (Inl e, w2) \<Rightarrow> (Inl e, w2)
              | (Inr u1, w2) \<Rightarrow>
                  (case updateStreak deps u1 w2 of
                     (Inl e, w3) \<Rightarrow> (Inl e, w3)
                   | (Inr u2, w3) \<Rightarrow> notifyLevelUp deps uid oldLevel u2 w3)))"

definition post_experience ::
  "'w progress_deps \<Rightarrow> string \<Rightarrow> json option \<Rightarrow> 'w \<Rightarrow> (js_error + response) \<times> 'w" where
  "post_experience deps uid amount w =
     (case post_experience_try deps uid amount w of
        (Inl err, w') \<Rightarrow> (caught ''Error updating experience'' err, w')
      | (Inr res, w') \<Rightarrow> (Inr res, w'))"

definition sync_telegram ::
  "'w progress_deps \<Rightarrow> string \<Rightarrow> 'w \<Rightarrow> (js_error + response) \<times> 'w" where
  "sync_telegram deps uid w =
     (case syncUserProgress deps uid w of
        (Inl err, w') \<Rightarrow> (caught ''Error syncing progress'' err, w')
      | (Inr done, w') \<Rightarrow>
          (Inr (json_response (JsonMessage ''Progress synced with Telegram'')), w'))"

definition get_achievements ::
  "'w progress_deps \<Rightarrow> string \<Rightarrow> 'w \<Rightarrow> (js_error + response) \<times> 'w" where
  "get_achievements deps uid w =
     (case findOne deps uid w of
        (Inl err, w') \<Rightarrow> (caught ''Error fetching achievements'' err, w')
      | (Inr None, w') \<Rightarrow>
          (Inr \<lparr>status = 404, body = JsonMessage ''User progress not found''\<rparr>, w')
      | (Inr (Some found), w') \<Rightarrow>
          (Inr (json_response (JsonAchievements (achievements found))), w'))"

section \<open>\<open>services/adService.js\<close>: \<open>getAdMetrics\<close>\<close>

text \<open>
  A view or click entry holds the user's id, here the string \<open>userId.toString()\<close>
  gives. \<open>ctr\<close> is a double: the model keeps the operations that compute it and does
  not round. \<open>Ad.findById\<close> is a parameter.
\<close>

record log_entry =
  userId :: string
  timestamp :: int

record ad =
  views :: "log_entry list"
  clicks :: "log_entry list"

datatype number = Num nat | Quotient number number | Product number number

fun divides_by_zero :: "number \<Rightarrow> bool" where
  "divides_by_zero (Num n) = False"
| "divides_by_zero (Quotient a b) = (b = Num 0 \<or> divides_by_zero a \<or> divides_by_zero b)"
| "divides_by_zero (Product a b) = (divides_by_zero a \<or> divides_by_zero b)"

record metrics =
  totalViews :: nat
  totalClicks :: nat
  uniqueViewers :: nat
  uniqueClickers :: nat
  ctr :: number

definition getAdMetrics :: "(string \<Rightarrow> js_error + ad option) \<Rightarrow> string \<Rightarrow> js_error + metrics" where
  "getAdMetrics findById adId =
     (case findById adId of
        Inl e \<Rightarrow> Inl e
      | Inr None \<Rightarrow> Inl (Error ''Ad not found'')
      | Inr (Some ad) \<Rightarrow>
          Inr \<lparr>totalViews = length (views ad),
               totalClicks = length (clicks ad),
               uniqueViewers = length (remdups (map log_entry.userId (views ad))),
               uniqueClickers = length (remdups (map log_entry.userId (clicks ad))),
               ctr = (if length (views ad) > 0
                      then Product (Quotient (Num (length (clicks ad))) (Num (length (views ad))))
                             (Num 100)
                      else Num 0)\<rparr>)"

section \<open>The canonical signature scheme\<close>

text \<open>
  The scheme in the specification's words, to compare \<open>verifyTelegramData\<close> with:
  drop the \<open>hash\<close> pairs, sort the rest by key (\<open>collate\<close> gives the place of a key in
  the alphabet's order), write each pair as \<open>key=value\<close>, join the lines with a
  newline, and sign with the key derived from the bot token.
\<close>

definition canonical_data_check_string ::
  "(string \<Rightarrow> 'k::linorder) \<Rightarrow> (string \<times> string) list \<Rightarrow> string" where
  "canonical_data_check_string collate params =
     join [CHR 0x0A]
       (map (\<lambda>kv. fst kv @ ''='' @ snd kv)
          (sort_key (\<lambda>kv. collate (fst kv)) (filter (\<lambda>kv. fst kv \<noteq> ''hash'') params)))"

definition canonical_signature ::
  "(string \<Rightarrow> 'k::linorder) \<Rightarrow> string \<Rightarrow> (string \<times> string) list \<Rightarrow> string" where
  "canonical_signature collate token params =
     hex (hmac_sha256 (hmac_sha256 ''WebAppData'' token)
            (canonical_data_check_string collate params))"

text \<open>
  What Telegram sends for a query string: the query with the signature of its
  parameters appended as \<open>hash\<close>.
\<close>

definition signed :: "(string \<Rightarrow> string \<Rightarrow> int) \<Rightarrow> string \<Rightarrow> string \<Rightarrow> string" where
  "signed localeCompare token query =
     query @ ''&hash='' @
       hex (hmac_sha256 (hmac_sha256 ''WebAppData'' token)
              (dataCheckString localeCompare (URLSearchParams query)))"

text \<open>
  A \<open>localeCompare\<close> for the examples: the order of the bytes, which is the order of
  every collation on words of lower-case ASCII letters.
\<close>

fun byteCompare :: "string \<Rightarrow> string \<Rightarrow> int" where
  "byteCompare [] [] = 0"
| "byteCompare [] (y # ys) = - 1"
| "byteCompare (x # xs) [] = 1"
| "byteCompare (x # xs) (y # ys) =
     (if (of_char x :: nat) < of_char y then - 1
      else if (of_char y :: nat) < of_char x then 1
      else byteCompare xs ys)"

definition bytes :: "string \<Rightarrow> nat list" where
  "bytes s = map of_char s"

section \<open>The \<open>UserLevel\<close> model's streak\<close>

text \<open>
  Modelled from the spec: \<open>UserLevel.updateStreak\<close>; \<open>models/UserLevel.js\<close> is not
  among the sources. The specification says: the streak is the count of consecutive
  active days; it is incremented on a day consecutive to the last active day and reset
  after skipped days. Days are numbered; \<open>today\<close> is the day of the update. A reset
  leaves the count at 1, today being the only active day of the new run; a second
  update on the same day changes nothing.
\<close>

definition updateStreak_spec :: "int \<Rightarrow> userLevel \<Rightarrow> userLevel" where
  "updateStreak_spec today u =
     (if today = lastActive u + 1 then u\<lparr>streak := streak u + 1, lastActive := today\<rparr>
      else if today > lastActive u + 1 then u\<lparr>streak := 1, lastActive := today\<rparr>
      else u)"

section \<open>Instances of the parameters, for the examples\<close>

text \<open>A \<open>UserLevel\<close> collection in memory, the newest document first.\<close>

definition memory_deps :: "int \<Rightarrow> ((string \<times> userLevel) list) progress_deps" where
  "memory_deps today =
     \<lparr>findOne = (\<lambda>uid w. (Inr (map_of w uid), w)),
      new_UserLevel = (\<lambda>uid. \<lparr>userLevel.userId = uid, userLevel.level = 1, experience = 0,
                               experienceToNextLevel = 100, streak = 0, lastActive = 0,
                               achievements = []\<rparr>),
      save = (\<lambda>u w. (Inr u, (userLevel.userId u, u) # w)),
      addExperience = (\<lambda>amount u w.
         (let u' = (if experience u + 60 \<ge> experienceToNextLevel u
                    then u\<lparr>experience := experience u + 60 - experienceToNextLevel u,
                           userLevel.level := userLevel.level u + 1\<rparr>
                    else u\<lparr>experience := experience u + 60\<rparr>)
          in (Inr u', (userLevel.userId u', u') # w))),
      updateStreak = (\<lambda>u w.
         (Inr (updateStreak_spec today u),
          (userLevel.userId u, updateStreak_spec today u) # w)),
      handleLevelUp = (\<lambda>uid l w. (Inr (), w)),
      syncUserProgress = (\<lambda>uid w. (Inr (), w))\<rparr>"

text \<open>
  A collection with a log of the level-up notifications sent. Its \<open>addExperience\<close>
  adds \<open>gain\<close> points and moves up one level for every \<open>experienceToNextLevel\<close>
  points reached, so one call can cross several thresholds.
\<close>

definition counting_deps ::
  "int \<Rightarrow> int \<Rightarrow> ((string \<times> userLevel) list \<times> (string \<times> int) list) progress_deps" where
  "counting_deps today gain =
     \<lparr>findOne = (\<lambda>uid w. (Inr (map_of (fst w) uid), w)),
      new_UserLevel = (\<lambda>uid. \<lparr>userLevel.userId = uid, userLevel.level = 1, experience = 0,
                               experienceToNextLevel = 100, streak = 0, lastActive = 0,
                               achievements = []\<rparr>),
      save = (\<lambda>u w. (Inr u, ((userLevel.userId u, u) # fst w, snd w))),
      addExperience = (\<lambda>amount u w.
         (Inr (u\<lparr>experience := (experience u + gain) mod experienceToNextLevel u,
                 userLevel.level :=
                   userLevel.level u + (experience u + gain) div experienceToNextLevel u\<rparr>), w)),
      updateStreak = (\<lambda>u w. (Inr (updateStreak_spec today u), w)),
      handleLevelUp = (\<lambda>uid l w. (Inr (), (fst w, snd w @ [(uid, l)]))),
      syncUserProgress = (\<lambda>uid w. (Inr (), w))\<rparr>"

text \<open>A collection in which the named call throws \<open>e\<close> and the others succeed;
  \<open>addExperience\<close> moves up one level.\<close>

definition faulty_deps :: "string \<Rightarrow> js_error \<Rightarrow> unit progress_deps" where
  "faulty_deps failing e =
     \<lparr>findOne = (\<lambda>uid w. if failing = ''findOne'' then (Inl e, w) else (Inr None, w)),
      new_UserLevel = (\<lambda>uid. \<lparr>userLevel.userId = uid, userLevel.level = 1, experience = 0,
                               experienceToNextLevel = 100, streak = 0, lastActive = 0,
                               achievements = []\<rparr>),
      save = (\<lambda>u w. if failing = ''save'' then (Inl e, w) else (Inr u, w)),
      addExperience = (\<lambda>amount u w.
         if failing = ''addExperience'' then (Inl e, w)
         else (Inr (u\<lparr>userLevel.level := userLevel.level u + 1\<rparr>), w)),
      updateStreak = (\<lambda>u w. if failing = ''updateStreak'' then (Inl e, w) else (Inr u, w)),
      handleLevelUp = (\<lambda>uid l w. if failing = ''handleLevelUp'' then (Inl e, w) else (Inr (), w)),
      syncUserProgress = (\<lambda>uid w.
         if failing = ''syncUserProgress'' then (Inl e, w) else (Inr (), w))\<rparr>"

text \<open>A \<open>users\<close> table in memory: \<open>single()\<close> answers the one matching row, or the error
  \<open>PGRST116\<close> when there is none or more than one.\<close>

definition memory_table :: "(user_row list) supabase" where
  "memory_table =
     \<lparr>select_single = (\<lambda>tid w.
         (Inr (case filter (\<lambda>r. telegram_id r = tid) w of
                 [r] \<Rightarrow> \<lparr>data = Some r, error = None\<rparr>
               | _ \<Rightarrow> \<lparr>data = None,
                        error = Some \<lparr>code = ''PGRST116'', message = ''no single row''\<rparr>\<rparr>), w)),
      insert_single = (\<lambda>n w.
         (let r = \<lparr>telegram_id = telegram_id n, new_user.username = new_user.username n,
                   new_user.first_name = new_user.first_name n,
                   new_user.last_name = new_user.last_name n,
                   balance = balance n, new_user.level = new_user.level n,
                   level_points = level_points n,
                   user_row.id' = ''row'' @ replicate (length w) CHR ''+''\<rparr>
          in (Inr \<lparr>data = Some r, error = None\<rparr>, w @ [r]))),
      jwt_sign = (\<lambda>uid tid. Inr (''token for '' @ uid))\<rparr>"

section \<open>Facts about the platform functions\<close>

subsection \<open>Hexadecimal digests\<close>

lemma hexdigit_in: "hexdigit n \<in> set ''0123456789abcdef''"
  unfolding hexdigit_def by (rule nth_mem) simp

lemma hex_chars: "c \<in> set (hex bs) \<Longrightarrow> c \<in> set ''0123456789abcdef''"
  unfolding hex_def using hexdigit_in by auto

lemma hex_plain:
  assumes "c \<in> set (hex bs)"
  shows "c \<noteq> CHR ''&''" "c \<noteq> CHR ''=''" "c \<noteq> CHR ''+''" "c \<noteq> CHR ''%''"
    "(of_char c :: nat) \<le> 0x7F"
  using hex_chars [OF assms] by auto

lemma tampered_not_hex: "''tampered'' \<noteq> hex bs"
proof
  assume "''tampered'' = hex bs"
  then have "CHR ''t'' \<in> set (hex bs)"
    by (metis list.set_intros(1))
  from hex_chars [OF this] show False
    by simp
qed

subsection \<open>Parsing a query string that ends in a digest\<close>

lemma split_on_nonempty: "split_on d s \<noteq> []"
  by (induction s) (auto split: list.splits)

lemma split_on_append: "split_on d (xs @ d # ys) = split_on d xs @ split_on d ys"
  by (induction xs) (auto split: list.splits simp: split_on_nonempty)

lemma split_on_none: "d \<notin> set s \<Longrightarrow> split_on d s = [s]"
  by (induction s) auto

lemma plus_to_space_id: "CHR ''+'' \<notin> set s \<Longrightarrow> plus_to_space s = s"
  unfolding plus_to_space_def by (induction s) auto

lemma percent_decode_id: "CHR ''%'' \<notin> set s \<Longrightarrow> percent_decode s = s"
  by (induction s) auto

lemma utf8_run_ascii:
  "\<forall>c\<in>set s. (of_char c :: nat) \<le> 0x7F \<Longrightarrow> utf8_run (0, 0x80, 0xBF, []) s = s"
  by (induction s) (auto simp: utf8_step_def utf8_lead_def)

lemma split_pair_append: "CHR ''='' \<notin> set k \<Longrightarrow> split_pair (k @ CHR ''='' # v) = (k, v)"
  by (induction k) auto

lemma decode_component_hex: "decode_component (hex bs) = hex bs"
proof -
  have 1: "plus_to_space (hex bs) = hex bs"
    by (rule plus_to_space_id) (use hex_plain(3) in blast)
  have 2: "percent_decode (hex bs) = hex bs"
    by (rule percent_decode_id) (use hex_plain(4) in blast)
  have 3: "utf8_decode (hex bs) = hex bs"
    unfolding utf8_decode_def by (rule utf8_run_ascii) (use hex_plain(5) in blast)
  show ?thesis
    by (simp add: decode_component_def 1 2 3)
qed

lemma parse_pair_hash: "parse_pair (''hash='' @ hex bs) = (''hash'', hex bs)"
proof -
  have "split_pair (''hash'' @ CHR ''='' # hex bs) = (''hash'', hex bs)"
    by (rule split_pair_append) simp
  moreover have "decode_component ''hash'' = ''hash''"
    by (simp add: decode_component_def plus_to_space_def utf8_decode_def utf8_step_def
        utf8_lead_def)
  ultimately show ?thesis
    by (simp add: parse_pair_def decode_component_hex)
qed

lemma URLSearchParams_hash:
  "URLSearchParams (q @ ''&hash='' @ hex bs) = URLSearchParams q @ [(''hash'', hex bs)]"
proof -
  have amp: "CHR ''&'' \<notin> set (''hash='' @ hex bs)"
    using hex_plain(1) by auto
  have sp: "split_on CHR ''&'' (r @ ''&hash='' @ hex bs)
      = split_on CHR ''&'' r @ [''hash='' @ hex bs]" for r
    using split_on_append [of "CHR ''&''" r "''hash='' @ hex bs"] split_on_none [OF amp]
    by simp
  show ?thesis
  proof (cases q)
    case Nil
    then show ?thesis
      using sp [of "[]"] parse_pair_hash [of bs]
      by (simp add: URLSearchParams_def del: split_on.simps)
  next
    case (Cons c cs)
    then show ?thesis
      using sp [of q] sp [of cs] parse_pair_hash [of bs]
      by (simp add: URLSearchParams_def del: split_on.simps)
  qed
qed

lemma get_delete_other: "k \<noteq> k' \<Longrightarrow> get (delete ps k') k = get ps k"
  unfolding get_def delete_def by (induction ps) auto

lemma get_append_absent: "get ps k = None \<Longrightarrow> get (ps @ [(k, v)]) k = Some v"
  unfolding get_def by (induction ps) (auto split: if_splits)

lemma delete_append_absent: "get ps k = None \<Longrightarrow> delete (ps @ [(k, v)]) k = ps"
  unfolding get_def delete_def by (induction ps) (auto split: if_splits)

subsection \<open>Evaluating the parsers\<close>

lemmas url_eval = URLSearchParams_def parse_pair_def decode_component_def plus_to_space_def
  utf8_decode_def utf8_step_def utf8_lead_def hexval_def char_of_def bit_0

lemmas json_eval = JSON_parse_def lex_step_def lex_idle_def lex_end_def is_ws_def is_digit_def
  is_numchar_def json_number_def frac_part_def exp_part_def parse_step_def start_value_def
  start_key_def after_value_def push_value_def close_array_def close_object_def flush_def
  simple_escape_def

subsection \<open>Sorting with a comparator that follows an order\<close>

lemma sort_by_sort_key:
  assumes "\<forall>a b. (cmp a b > 0) = (f b < f a)"
  shows "sort_by cmp xs = sort_key f xs"
proof -
  have ins: "insert_by cmp x ys = insort_key f x ys" for x ys
    by (induction ys) (use assms in \<open>auto simp: not_le\<close>)
  show ?thesis
    unfolding sort_by_def sort_key_def by (induction xs) (simp_all add: ins)
qed

lemma byteCompare_bytes: "(byteCompare a b > 0) = (bytes b < bytes a)"
  by (induction a b rule: byteCompare.induct) (auto simp: bytes_def)

section \<open>\<open>verifyTelegramData\<close>\<close>

lemma verifyTelegramData_try_Some:
  "verifyTelegramData_try lc (Some token) s =
     (if get (URLSearchParams s) ''hash'' = Some (calculatedHash lc token s)
      then parseUser (delete (URLSearchParams s) ''hash'')
      else Inl (Error ''Invalid hash''))"
  by (auto simp: verifyTelegramData_try_def calculatedHash_def Let_def)

lemma verifyTelegramData_try_None: "verifyTelegramData_try lc None s = Inl TypeError"
  by (simp add: verifyTelegramData_try_def Let_def)

lemma parseUser_absent:
  "get ps ''user'' = None \<Longrightarrow>
   parseUser ps = Inr \<lparr>tg_user.id' = Some JNull, tg_user.username = Some JNull,
     tg_user.first_name = Some JNull, tg_user.last_name = Some JNull\<rparr>"
  by (simp add: parseUser_def userField_def)

lemma parseUser_syntax_error:
  "get ps ''user'' = Some u \<Longrightarrow> u \<noteq> [] \<Longrightarrow> JSON_parse u = None \<Longrightarrow>
   parseUser ps = Inl SyntaxError"
  by (simp add: parseUser_def userField_def)

lemma parseUser_null:
  "get ps ''user'' = Some u \<Longrightarrow> u \<noteq> [] \<Longrightarrow> JSON_parse u = Some JNull \<Longrightarrow>
   parseUser ps = Inl TypeError"
  by (simp add: parseUser_def userField_def getProp_def)

lemma parseUser_value:
  "get ps ''user'' = Some u \<Longrightarrow> u \<noteq> [] \<Longrightarrow> JSON_parse u = Some v \<Longrightarrow> v \<noteq> JNull \<Longrightarrow>
   parseUser ps = Inr \<lparr>tg_user.id' = ownProperty v ''id'',
     tg_user.username = ownProperty v ''username'',
     tg_user.first_name = ownProperty v ''first_name'',
     tg_user.last_name = ownProperty v ''last_name''\<rparr>"
  by (simp add: parseUser_def userField_def getProp_def)

text \<open>Signing a query and parsing the result gives the query's parameters and the
  signature as \<open>hash\<close>.\<close>

lemma signed_params:
  "URLSearchParams (signed lc token q) =
     URLSearchParams q @ [(''hash'', hex (hmac_sha256 (hmac_sha256 ''WebAppData'' token)
       (dataCheckString lc (URLSearchParams q))))]"
  unfolding signed_def by (rule URLSearchParams_hash)

lemma signed_delete:
  "get (URLSearchParams q) ''hash'' = None \<Longrightarrow>
   delete (URLSearchParams (signed lc token q)) ''hash'' = URLSearchParams q"
  by (simp add: signed_params delete_append_absent)

lemma signed_hash_valid:
  "get (URLSearchParams q) ''hash'' = None \<Longrightarrow>
   get (URLSearchParams (signed lc token q)) ''hash''
     = Some (calculatedHash lc token (signed lc token q))"
  by (simp add: calculatedHash_def signed_delete) (simp add: signed_params get_append_absent)

lemma dataCheckString_canonical:
  assumes "\<forall>a b. (localeCompare a b > 0) = (collate b < collate a)"
  shows "dataCheckString localeCompare (delete ps ''hash'') = canonical_data_check_string collate ps"
proof -
  have "sort_by (\<lambda>a b. localeCompare (fst a) (fst b)) xs = sort_key (\<lambda>kv. collate (fst kv)) xs"
    for xs :: "(string \<times> string) list"
    by (rule sort_by_sort_key) (use assms in simp)
  then show ?thesis
    by (simp add: dataCheckString_def canonical_data_check_string_def delete_def entries_def
        case_prod_unfold)
qed

text \<open>The query \<open>user={"id":7}\<close>, percent-encoded, its value, and the signed query
  verified.\<close>

lemma query_user_7:
  "URLSearchParams ''user=%7B%22id%22%3A7%7D''
     = [(''user'', ''{'' @ [CHR 0x22] @ ''id'' @ [CHR 0x22] @ '':7}'')]"
  by (simp add: url_eval)

lemma json_user_7:
  "JSON_parse (''{'' @ [CHR 0x22] @ ''id'' @ [CHR 0x22] @ '':7}'')
     = Some (JObject [(''id'', JNumber ''7'')])"
  by (simp add: json_eval)

lemma signed_user_7_params:
  "get (URLSearchParams ''user=%7B%22id%22%3A7%7D'') ''hash'' = None"
  "get (URLSearchParams (signed byteCompare ''T'' ''user=%7B%22id%22%3A7%7D'')) ''user''
     = Some (''{'' @ [CHR 0x22] @ ''id'' @ [CHR 0x22] @ '':7}'')"
  unfolding signed_params query_user_7 by (simp_all add: get_def)

lemma signed_user_7_verified:
  "verifyTelegramData byteCompare (Some ''T'') (signed byteCompare ''T'' ''user=%7B%22id%22%3A7%7D'')
     = \<lparr>user = Some \<lparr>tg_user.id' = Some (JNumber ''7''), tg_user.username = None,
          tg_user.first_name = None, tg_user.last_name = None\<rparr>\<rparr>"
proof -
  have "parseUser (URLSearchParams ''user=%7B%22id%22%3A7%7D'')
      = Inr \<lparr>tg_user.id' = Some (JNumber ''7''), tg_user.username = None,
          tg_user.first_name = None, tg_user.last_name = None\<rparr>"
    unfolding query_user_7
    by (simp add: parseUser_def userField_def get_def json_user_7 [simplified] getProp_def
        ownProperty_def)
  then show ?thesis
    by (simp add: verifyTelegramData_def verifyTelegramData_try_Some
        signed_hash_valid [OF signed_user_7_params(1)] signed_delete [OF signed_user_7_params(1)])
qed

section \<open>\<open>telegramAuth\<close>\<close>

lemma URLSearchParams_empty: "URLSearchParams [] = []"
  by (simp add: URLSearchParams_def)

lemma issueToken_result:
  "issueToken db rid u w = (Inr r, w') \<Longrightarrow> \<exists>ru t. r = Next ru t"
  by (auto simp: issueToken_def split: sum.splits)

lemma createUser_result:
  "createUser db u w = (Inr r, w') \<Longrightarrow> \<exists>ru t. r = Next ru t"
  by (auto simp: createUser_def split: prod.splits sum.splits option.splits
      dest: issueToken_result)

lemma getOrCreateUser_result:
  "getOrCreateUser db u w = (Inr r, w') \<Longrightarrow> \<exists>ru t. r = Next ru t"
  by (auto simp: getOrCreateUser_def split: prod.splits sum.splits option.splits if_splits
      dest: issueToken_result createUser_result)

lemma telegramAuth_verified:
  assumes "user (verifyTelegramData lc tok initData) = Some u" and "initData \<noteq> []"
  shows "telegramAuth db lc tok (Some initData) w =
     (case getOrCreateUser db u w of
        (Inl e, w') \<Rightarrow> (Responded 401 ''Authentication failed'', w')
      | (Inr r, w') \<Rightarrow> (r, w'))"
  using assms by (simp add: telegramAuth_def telegramAuth_try_def)

lemma telegramAuth_verified_not_invalid:
  assumes "user (verifyTelegramData lc tok initData) = Some u" and "initData \<noteq> []"
  shows "fst (telegramAuth db lc tok (Some initData) w) \<noteq> Responded 401 ''Invalid Telegram data''"
proof (cases "getOrCreateUser db u w")
  case (Pair res w')
  show ?thesis
  proof (cases res)
    case (Inl e)
    with Pair show ?thesis
      by (simp add: telegramAuth_verified [OF assms])
  next
    case (Inr r)
    with Pair getOrCreateUser_result [of db u w r w'] show ?thesis
      by (auto simp: telegramAuth_verified [OF assms])
  qed
qed

section \<open>The progress routes\<close>

lemma caught_error:
  "e \<noteq> ThrownNull \<Longrightarrow> e \<noteq> ThrownUndefined \<Longrightarrow>
   caught msg e = Inr \<lparr>status = 500, body = JsonError msg e\<rparr>"
  by (simp add: caught_def)

lemma post_experience_outcome:
  assumes "findOne deps uid w = (Inr found, w1)"
    and "addExperience deps amount (case found of None \<Rightarrow> new_UserLevel deps uid | Some u \<Rightarrow> u) w1
           = (Inr u1, w2)"
    and "updateStreak deps u1 w2 = (Inr u2, w3)"
  shows "post_experience deps uid amount w =
     (if userLevel.level u2
           > userLevel.level (case found of None \<Rightarrow> new_UserLevel deps uid | Some u \<Rightarrow> u)
      then (case handleLevelUp deps uid (userLevel.level u2) w3 of
              (Inl e, w4) \<Rightarrow> (caught ''Error updating experience'' e, w4)
            | (Inr done, w4) \<Rightarrow> (Inr (json_response (JsonUserLevel u2)), w4))
      else (Inr (json_response (JsonUserLevel u2)), w3))"
  using assms
  by (simp add: post_experience_def post_experience_try_def notifyLevelUp_def Let_def
      split: prod.splits sum.splits)

lemma get_progress_findOne_throws:
  "findOne deps uid w = (Inl e, w') \<Longrightarrow>
   get_progress deps uid w = (caught ''Error fetching progress'' e, w')"
  by (simp add: get_progress_def get_progress_try_def)

lemma get_progress_save_throws:
  "findOne deps uid w = (Inr None, w') \<Longrightarrow>
   save deps (new_UserLevel deps uid) w' = (Inl e, w'') \<Longrightarrow>
   get_progress deps uid w = (caught ''Error fetching progress'' e, w'')"
  by (simp add: get_progress_def get_progress_try_def)

lemma get_progress_creates:
  "findOne deps uid w = (Inr None, w1) \<Longrightarrow>
   save deps (new_UserLevel deps uid) w1 = (Inr saved, w2) \<Longrightarrow>
   get_progress deps uid w = (Inr (json_response (JsonUserLevel saved)), w2)"
  by (simp add: get_progress_def get_progress_try_def)

lemma post_experience_findOne_throws:
  "findOne deps uid w = (Inl e, w') \<Longrightarrow>
   post_experience deps uid amount w = (caught ''Error updating experience'' e, w')"
  by (simp add: post_experience_def post_experience_try_def)

lemma post_experience_addExperience_throws:
  "findOne deps uid w = (Inr found, w') \<Longrightarrow>
   addExperience deps amount (case found of None \<Rightarrow> new_UserLevel deps uid | Some u \<Rightarrow> u) w'
     = (Inl e, w'') \<Longrightarrow>
   post_experience deps uid amount w = (caught ''Error updating experience'' e, w'')"
  by (simp add: post_experience_def post_experience_try_def Let_def)

lemma post_experience_updateStreak_throws:
  "findOne deps uid w = (Inr found, w') \<Longrightarrow>
   addExperience deps amount (case found of None \<Rightarrow> new_UserLevel deps uid | Some u \<Rightarrow> u) w'
     = (Inr u1, w'') \<Longrightarrow>
   updateStreak deps u1 w'' = (Inl e, w''') \<Longrightarrow>
   post_experience deps uid amount w = (caught ''Error updating experience'' e, w''')"
  by (simp add: post_experience_def post_experience_try_def Let_def)

lemma post_experience_handleLevelUp_throws:
  "findOne deps uid w = (Inr found, w') \<Longrightarrow>
   addExperience deps amount (case found of None \<Rightarrow> new_UserLevel deps uid | Some u \<Rightarrow> u) w'
     = (Inr u1, w'') \<Longrightarrow>
   updateStreak deps u1 w'' = (Inr u2, w''') \<Longrightarrow>
   userLevel.level u2
     > userLevel.level (case found of None \<Rightarrow> new_UserLevel deps uid | Some u \<Rightarrow> u) \<Longrightarrow>
   handleLevelUp deps uid (userLevel.level u2) w''' = (Inl e, w'''') \<Longrightarrow>
   post_experience deps uid amount w = (caught ''Error updating experience'' e, w'''')"
  by (simp add: post_experience_def post_experience_try_def notifyLevelUp_def Let_def)

lemma sync_telegram_throws:
  "syncUserProgress deps uid w = (Inl e, w') \<Longrightarrow>
   sync_telegram deps uid w = (caught ''Error syncing progress'' e, w')"
  by (simp add: sync_telegram_def)

lemma get_achievements_throws:
  "findOne deps uid w = (Inl e, w') \<Longrightarrow>
   get_achievements deps uid w = (caught ''Error fetching achievements'' e, w')"
  by (simp add: get_achievements_def)

lemma get_achievements_missing:
  "findOne deps uid w = (Inr None, w') \<Longrightarrow>
   get_achievements deps uid w
     = (Inr \<lparr>status = 404, body = JsonMessage ''User progress not found''\<rparr>, w')"
  by (simp add: get_achievements_def)

text \<open>
  Claim C2. For every init-data string whose \<open>hash\<close> parameter is not the hex
  HMAC-SHA256 recomputed over the remaining parameters, \<open>verifyTelegramData\<close> returns
  \<open>{ user: null }\<close>. A missing \<open>hash\<close> is such a string.
\<close>

theorem tampered_data_rejected:
  assumes "get (URLSearchParams initData) ''hash''
             \<noteq> Some (calculatedHash localeCompare token initData)"
  shows "verifyTelegramData localeCompare (Some token) initData = \<lparr>user = None\<rparr>"
  using assms by (simp add: verifyTelegramData_def verifyTelegramData_try_Some)

theorem tampered_data_rejected_witness:
  "get (URLSearchParams ''user=x&hash=tampered'') ''hash''
     \<noteq> Some (calculatedHash byteCompare ''T'' ''user=x&hash=tampered'')
   \<and> verifyTelegramData byteCompare (Some ''T'') ''user=x&hash=tampered'' = \<lparr>user = None\<rparr>"
proof -
  have p: "URLSearchParams ''user=x&hash=tampered'' = [(''user'', ''x''), (''hash'', ''tampered'')]"
    by (simp add: url_eval)
  have h: "get (URLSearchParams ''user=x&hash=tampered'') ''hash''
     \<noteq> Some (calculatedHash byteCompare ''T'' ''user=x&hash=tampered'')"
    unfolding p using tampered_not_hex by (simp add: get_def calculatedHash_def)
  from h tampered_data_rejected [OF h] show ?thesis
    by blast
qed

text \<open>
  Claim C1, as amended. For every init-data string whose \<open>hash\<close> parameter is the
  hex HMAC-SHA256 of the data-check string under the key derived from the bot token,
  and whose \<open>user\<close> parameter is non-empty JSON text of a value other than \<open>null\<close>,
  \<open>verifyTelegramData\<close> returns the user whose \<open>id\<close>, \<open>username\<close>, \<open>first_name\<close>
  and \<open>last_name\<close> are the properties of that value.
\<close>

theorem valid_hash_returns_parsed_user:
  assumes "get (URLSearchParams initData) ''hash''
             = Some (calculatedHash localeCompare token initData)"
    and "get (URLSearchParams initData) ''user'' = Some u"
    and "u \<noteq> []"
    and "JSON_parse u = Some v"
    and "v \<noteq> JNull"
  shows "verifyTelegramData localeCompare (Some token) initData =
     \<lparr>user = Some \<lparr>tg_user.id' = ownProperty v ''id'',
        tg_user.username = ownProperty v ''username'',
        tg_user.first_name = ownProperty v ''first_name'',
        tg_user.last_name = ownProperty v ''last_name''\<rparr>\<rparr>"
proof -
  have "get (delete (URLSearchParams initData) ''hash'') ''user'' = Some u"
    using assms(2) by (simp add: get_delete_other)
  from parseUser_value [OF this assms(3-5)] assms(1) show ?thesis
    by (simp add: verifyTelegramData_def verifyTelegramData_try_Some)
qed

theorem valid_hash_returns_parsed_user_witness:
  "get (URLSearchParams (signed byteCompare ''T'' ''user=%7B%22id%22%3A7%7D'')) ''hash''
     = Some (calculatedHash byteCompare ''T'' (signed byteCompare ''T'' ''user=%7B%22id%22%3A7%7D''))
   \<and> verifyTelegramData byteCompare (Some ''T'') (signed byteCompare ''T'' ''user=%7B%22id%22%3A7%7D'')
     = \<lparr>user = Some \<lparr>tg_user.id' = Some (JNumber ''7''), tg_user.username = None,
          tg_user.first_name = None, tg_user.last_name = None\<rparr>\<rparr>"
proof -
  let ?s = "signed byteCompare ''T'' ''user=%7B%22id%22%3A7%7D''"
  let ?u = "''{'' @ [CHR 0x22] @ ''id'' @ [CHR 0x22] @ '':7}''"
  have h: "get (URLSearchParams ?s) ''hash'' = Some (calculatedHash byteCompare ''T'' ?s)"
    by (rule signed_hash_valid [OF signed_user_7_params(1)])
  have ne: "?u \<noteq> []"
    by simp
  have nn: "JObject [(''id'', JNumber ''7'')] \<noteq> JNull"
    by simp
  from valid_hash_returns_parsed_user [OF h signed_user_7_params(2) ne json_user_7 nn] h
  show ?thesis
    by (simp add: ownProperty_def)
qed

text \<open>
  Claim C1 as stated fails: a valid \<open>hash\<close> alone does not make the call succeed.
  With the token \<open>T\<close> and the signed query \<open>user=x\<close> the hash matches, \<open>JSON.parse\<close>
  throws, and the result is \<open>{ user: null }\<close>.
\<close>

lemma query_user_x: "URLSearchParams ''user=x'' = [(''user'', ''x'')]"
  by (simp add: url_eval)

lemma json_x: "JSON_parse ''x'' = None"
  by (simp add: json_eval)

theorem valid_hash_unparseable_user_counterexample:
  "get (URLSearchParams (signed byteCompare ''T'' ''user=x'')) ''hash''
     = Some (calculatedHash byteCompare ''T'' (signed byteCompare ''T'' ''user=x''))
   \<and> verifyTelegramData byteCompare (Some ''T'') (signed byteCompare ''T'' ''user=x'')
     = \<lparr>user = None\<rparr>"
proof -
  have nohash: "get (URLSearchParams ''user=x'') ''hash'' = None"
    unfolding query_user_x by (simp add: get_def)
  have h: "get (URLSearchParams (signed byteCompare ''T'' ''user=x'')) ''hash''
      = Some (calculatedHash byteCompare ''T'' (signed byteCompare ''T'' ''user=x''))"
    by (rule signed_hash_valid [OF nohash])
  have "parseUser (URLSearchParams ''user=x'') = Inl SyntaxError"
    by (rule parseUser_syntax_error [where u = "''x''"])
      (simp_all add: query_user_x get_def json_x)
  with h show ?thesis
    by (simp add: verifyTelegramData_def verifyTelegramData_try_Some signed_delete [OF nohash])
qed

text \<open>
  Claim C4. \<open>verifyTelegramData\<close> checks the canonical signature: with a
  \<open>localeCompare\<close> that follows the order of the alphabet (\<open>collate\<close>), the call gets
  past the hash check exactly when the \<open>hash\<close> parameter is the hex HMAC-SHA256, under
  the key HMAC-SHA256(\<open>WebAppData\<close>, bot token), of the remaining pairs sorted by key
  and joined as \<open>key=value\<close> lines.
\<close>

theorem verifyTelegramData_canonical_scheme:
  assumes "\<forall>a b. (localeCompare a b > 0) = (collate b < collate a)"
  shows "verifyTelegramData_try localeCompare (Some token) initData =
     (if get (URLSearchParams initData) ''hash''
           = Some (canonical_signature collate token (URLSearchParams initData))
      then parseUser (delete (URLSearchParams initData) ''hash'')
      else Inl (Error ''Invalid hash''))"
  using dataCheckString_canonical [OF assms]
  by (simp add: verifyTelegramData_try_Some calculatedHash_def canonical_signature_def)

lemma query_two: "URLSearchParams ''user=7&auth_date=1'' = [(''user'', ''7''), (''auth_date'', ''1'')]"
  by (simp add: url_eval)

lemma dataCheckString_two:
  "dataCheckString byteCompare [(''user'', ''7''), (''auth_date'', ''1'')]
     = ''auth_date=1'' @ [CHR 0x0A] @ ''user=7''"
  by (simp add: dataCheckString_def sort_by_def entries_def)

lemma json_7: "JSON_parse ''7'' = Some (JNumber ''7'')"
  by (simp add: json_eval)

theorem verifyTelegramData_canonical_scheme_witness:
  "(\<forall>a b. (byteCompare a b > 0) = (bytes b < bytes a))
   \<and> signed byteCompare ''T'' ''user=7&auth_date=1''
       = ''user=7&auth_date=1&hash=''
           @ hex (hmac_sha256 (hmac_sha256 ''WebAppData'' ''T'')
                   (''auth_date=1'' @ [CHR 0x0A] @ ''user=7''))
   \<and> verifyTelegramData_try byteCompare (Some ''T'') (signed byteCompare ''T'' ''user=7&auth_date=1'')
       = Inr \<lparr>tg_user.id' = None, tg_user.username = None, tg_user.first_name = None,
              tg_user.last_name = None\<rparr>
   \<and> verifyTelegramData_try byteCompare (Some ''T'') ''user=7&auth_date=1&hash=tampered''
       = Inl (Error ''Invalid hash'')"
proof -
  let ?s = "signed byteCompare ''T'' ''user=7&auth_date=1''"
  let ?h = "hex (hmac_sha256 (hmac_sha256 ''WebAppData'' ''T'')
                   (''auth_date=1'' @ [CHR 0x0A] @ ''user=7''))"
  have c: "\<forall>a b. (byteCompare a b > 0) = (bytes b < bytes a)"
    using byteCompare_bytes by blast
  have sg: "?s = ''user=7&auth_date=1&hash='' @ ?h"
    by (simp add: signed_def query_two dataCheckString_two)
  have p: "URLSearchParams ?s = [(''user'', ''7''), (''auth_date'', ''1''), (''hash'', ?h)]"
    by (simp add: signed_params query_two dataCheckString_two)
  have cs: "canonical_signature bytes ''T'' (URLSearchParams ?s) = ?h"
    unfolding p by (simp add: canonical_signature_def canonical_data_check_string_def bytes_def)
  have ok: "get (URLSearchParams ?s) ''hash''
      = Some (canonical_signature bytes ''T'' (URLSearchParams ?s))"
    unfolding cs unfolding p by (simp add: get_def)
  have pu: "parseUser (delete (URLSearchParams ?s) ''hash'')
      = Inr \<lparr>tg_user.id' = None, tg_user.username = None, tg_user.first_name = None,
              tg_user.last_name = None\<rparr>"
    unfolding p
    by (simp add: delete_def parseUser_def userField_def get_def json_7 getProp_def ownProperty_def)
  have accept: "verifyTelegramData_try byteCompare (Some ''T'') ?s
      = Inr \<lparr>tg_user.id' = None, tg_user.username = None, tg_user.first_name = None,
              tg_user.last_name = None\<rparr>"
    using verifyTelegramData_canonical_scheme [OF c, of "''T''" ?s] ok pu by simp
  have p': "URLSearchParams ''user=7&auth_date=1&hash=tampered''
      = [(''user'', ''7''), (''auth_date'', ''1''), (''hash'', ''tampered'')]"
    by (simp add: url_eval)
  have n: "get (URLSearchParams ''user=7&auth_date=1&hash=tampered'') ''hash''
      \<noteq> Some (canonical_signature bytes ''T'' (URLSearchParams ''user=7&auth_date=1&hash=tampered''))"
    unfolding p' canonical_signature_def using tampered_not_hex by (simp add: get_def)
  have reject: "verifyTelegramData_try byteCompare (Some ''T'') ''user=7&auth_date=1&hash=tampered''
      = Inl (Error ''Invalid hash'')"
    using verifyTelegramData_canonical_scheme [OF c, of "''T''" "''user=7&auth_date=1&hash=tampered''"] n
    by simp
  from c sg accept reject show ?thesis
    by blast
qed

text \<open>
  Claim C6. There is an init-data string with a valid hash and no \<open>user\<close> parameter,
  and for every such string \<open>verifyTelegramData\<close> returns a user object whose \<open>id\<close>,
  \<open>username\<close>, \<open>first_name\<close> and \<open>last_name\<close> are all \<open>null\<close>; the object being
  truthy, \<open>telegramAuth\<close> does not answer \<open>Invalid Telegram data\<close>.
\<close>

theorem valid_hash_without_user_passes_auth:
  assumes "get (URLSearchParams initData) ''hash''
             = Some (calculatedHash localeCompare token initData)"
    and "get (URLSearchParams initData) ''user'' = None"
  shows "verifyTelegramData localeCompare (Some token) initData =
       \<lparr>user = Some \<lparr>tg_user.id' = Some JNull, tg_user.username = Some JNull,
          tg_user.first_name = Some JNull, tg_user.last_name = Some JNull\<rparr>\<rparr>
     \<and> fst (telegramAuth db localeCompare (Some token) (Some initData) w)
         \<noteq> Responded 401 ''Invalid Telegram data''"
proof -
  have ne: "initData \<noteq> []"
    using assms(1) by (auto simp: URLSearchParams_empty get_def)
  have "get (delete (URLSearchParams initData) ''hash'') ''user'' = None"
    using assms(2) by (simp add: get_delete_other)
  from parseUser_absent [OF this] assms(1)
  have v: "verifyTelegramData localeCompare (Some token) initData =
       \<lparr>user = Some \<lparr>tg_user.id' = Some JNull, tg_user.username = Some JNull,
          tg_user.first_name = Some JNull, tg_user.last_name = Some JNull\<rparr>\<rparr>"
    by (simp add: verifyTelegramData_def verifyTelegramData_try_Some)
  then have "user (verifyTelegramData localeCompare (Some token) initData)
      = Some \<lparr>tg_user.id' = Some JNull, tg_user.username = Some JNull,
          tg_user.first_name = Some JNull, tg_user.last_name = Some JNull\<rparr>"
    by simp
  from telegramAuth_verified_not_invalid [OF this ne, of db w] v show ?thesis
    by simp
qed

lemma query_auth_date: "URLSearchParams ''auth_date=1'' = [(''auth_date'', ''1'')]"
  by (simp add: url_eval)

theorem valid_hash_without_user_passes_auth_witness:
  "get (URLSearchParams (signed byteCompare ''T'' ''auth_date=1'')) ''hash''
     = Some (calculatedHash byteCompare ''T'' (signed byteCompare ''T'' ''auth_date=1''))
   \<and> get (URLSearchParams (signed byteCompare ''T'' ''auth_date=1'')) ''user'' = None
   \<and> verifyTelegramData byteCompare (Some ''T'') (signed byteCompare ''T'' ''auth_date=1'') =
       \<lparr>user = Some \<lparr>tg_user.id' = Some JNull, tg_user.username = Some JNull,
          tg_user.first_name = Some JNull, tg_user.last_name = Some JNull\<rparr>\<rparr>
   \<and> fst (telegramAuth memory_table byteCompare (Some ''T'')
            (Some (signed byteCompare ''T'' ''auth_date=1'')) [])
       \<noteq> Responded 401 ''Invalid Telegram data''"
proof -
  have nohash: "get (URLSearchParams ''auth_date=1'') ''hash'' = None"
    unfolding query_auth_date by (simp add: get_def)
  have h: "get (URLSearchParams (signed byteCompare ''T'' ''auth_date=1'')) ''hash''
      = Some (calculatedHash byteCompare ''T'' (signed byteCompare ''T'' ''auth_date=1''))"
    by (rule signed_hash_valid [OF nohash])
  have u: "get (URLSearchParams (signed byteCompare ''T'' ''auth_date=1'')) ''user'' = None"
    unfolding signed_params query_auth_date by (simp add: get_def)
  from valid_hash_without_user_passes_auth [OF h u, of memory_table "[]"] h u show ?thesis
    by blast
qed

text \<open>
  Claim C9. \<open>verifyTelegramData\<close> never throws: for every init-data string, with or
  without a bot token, its promise is fulfilled with an object \<open>{ user }\<close>. Each throw
  of the \<open>try\<close> block is caught and gives \<open>{ user: null }\<close>: the \<open>TypeError\<close> of an unset
  token, \<open>Invalid hash\<close> for a missing or wrong hash, the \<open>SyntaxError\<close> of a \<open>user\<close>
  that is not JSON and the \<open>TypeError\<close> of a \<open>user\<close> that is \<open>null\<close>, both behind a valid
  hash. A malformed percent escape is not an error of \<open>URLSearchParams\<close>.
\<close>

theorem verifyTelegramData_never_throws:
  "verifyTelegramData_async localeCompare TELEGRAM_BOT_TOKEN initData
     = Inr (verifyTelegramData localeCompare TELEGRAM_BOT_TOKEN initData)
   \<and> (TELEGRAM_BOT_TOKEN = None
        \<longrightarrow> verifyTelegramData_try localeCompare TELEGRAM_BOT_TOKEN initData = Inl TypeError
          \<and> verifyTelegramData_async localeCompare TELEGRAM_BOT_TOKEN initData
              = Inr \<lparr>user = None\<rparr>)
   \<and> (\<forall>token. TELEGRAM_BOT_TOKEN = Some token
          \<and> get (URLSearchParams initData) ''hash''
              \<noteq> Some (calculatedHash localeCompare token initData)
        \<longrightarrow> verifyTelegramData_try localeCompare TELEGRAM_BOT_TOKEN initData
              = Inl (Error ''Invalid hash'')
          \<and> verifyTelegramData_async localeCompare TELEGRAM_BOT_TOKEN initData
              = Inr \<lparr>user = None\<rparr>)
   \<and> (\<forall>token u. TELEGRAM_BOT_TOKEN = Some token
          \<and> get (URLSearchParams initData) ''hash''
              = Some (calculatedHash localeCompare token initData)
          \<and> get (URLSearchParams initData) ''user'' = Some u \<and> u \<noteq> [] \<and> JSON_parse u = None
        \<longrightarrow> verifyTelegramData_try localeCompare TELEGRAM_BOT_TOKEN initData = Inl SyntaxError
          \<and> verifyTelegramData_async localeCompare TELEGRAM_BOT_TOKEN initData
              = Inr \<lparr>user = None\<rparr>)
   \<and> (\<forall>token u. TELEGRAM_BOT_TOKEN = Some token
          \<and> get (URLSearchParams initData) ''hash''
              = Some (calculatedHash localeCompare token initData)
          \<and> get (URLSearchParams initData) ''user'' = Some u \<and> u \<noteq> []
          \<and> JSON_parse u = Some JNull
        \<longrightarrow> verifyTelegramData_try localeCompare TELEGRAM_BOT_TOKEN initData = Inl TypeError
          \<and> verifyTelegramData_async localeCompare TELEGRAM_BOT_TOKEN initData
              = Inr \<lparr>user = None\<rparr>)"
proof -
  have total: "verifyTelegramData_async localeCompare TELEGRAM_BOT_TOKEN initData
     = Inr (verifyTelegramData localeCompare TELEGRAM_BOT_TOKEN initData)"
    by (simp add: verifyTelegramData_async_def verifyTelegramData_catch_def
        verifyTelegramData_def split: sum.splits)
  have thrown: "verifyTelegramData_async localeCompare TELEGRAM_BOT_TOKEN initData
      = Inr \<lparr>user = None\<rparr>"
    if "verifyTelegramData_try localeCompare TELEGRAM_BOT_TOKEN initData = Inl x" for x
    using that by (simp add: verifyTelegramData_async_def verifyTelegramData_catch_def)
  have user_kept: "get (delete (URLSearchParams initData) ''hash'') ''user''
      = get (URLSearchParams initData) ''user''"
    by (simp add: get_delete_other)
  show ?thesis
  proof (intro conjI allI impI)
    show "verifyTelegramData_async localeCompare TELEGRAM_BOT_TOKEN initData
        = Inr (verifyTelegramData localeCompare TELEGRAM_BOT_TOKEN initData)"
      by (rule total)
  next
    assume "TELEGRAM_BOT_TOKEN = None"
    then show "verifyTelegramData_try localeCompare TELEGRAM_BOT_TOKEN initData = Inl TypeError"
      by (simp add: verifyTelegramData_try_None)
    then show "verifyTelegramData_async localeCompare TELEGRAM_BOT_TOKEN initData
        = Inr \<lparr>user = None\<rparr>"
      by (rule thrown)
  next
    fix token
    assume "TELEGRAM_BOT_TOKEN = Some token
          \<and> get (URLSearchParams initData) ''hash''
              \<noteq> Some (calculatedHash localeCompare token initData)"
    then show "verifyTelegramData_try localeCompare TELEGRAM_BOT_TOKEN initData
        = Inl (Error ''Invalid hash'')"
      by (simp add: verifyTelegramData_try_Some)
    then show "verifyTelegramData_async localeCompare TELEGRAM_BOT_TOKEN initData
        = Inr \<lparr>user = None\<rparr>"
      by (rule thrown)
  next
    fix token u
    assume a: "TELEGRAM_BOT_TOKEN = Some token
          \<and> get (URLSearchParams initData) ''hash''
              = Some (calculatedHash localeCompare token initData)
          \<and> get (URLSearchParams initData) ''user'' = Some u \<and> u \<noteq> [] \<and> JSON_parse u = None"
    then have "parseUser (delete (URLSearchParams initData) ''hash'') = Inl SyntaxError"
      using parseUser_syntax_error [of "delete (URLSearchParams initData) ''hash''" u]
      by (simp add: user_kept)
    with a show "verifyTelegramData_try localeCompare TELEGRAM_BOT_TOKEN initData = Inl SyntaxError"
      by (simp add: verifyTelegramData_try_Some)
    then show "verifyTelegramData_async localeCompare TELEGRAM_BOT_TOKEN initData
        = Inr \<lparr>user = None\<rparr>"
      by (rule thrown)
  next
    fix token u
    assume a: "TELEGRAM_BOT_TOKEN = Some token
          \<and> get (URLSearchParams initData) ''hash''
              = Some (calculatedHash localeCompare token initData)
          \<and> get (URLSearchParams initData) ''user'' = Some u \<and> u \<noteq> []
          \<and> JSON_parse u = Some JNull"
    then have "parseUser (delete (URLSearchParams initData) ''hash'') = Inl TypeError"
      using parseUser_null [of "delete (URLSearchParams initData) ''hash''" u]
      by (simp add: user_kept)
    with a show "verifyTelegramData_try localeCompare TELEGRAM_BOT_TOKEN initData = Inl TypeError"
      by (simp add: verifyTelegramData_try_Some)
    then show "verifyTelegramData_async localeCompare TELEGRAM_BOT_TOKEN initData
        = Inr \<lparr>user = None\<rparr>"
      by (rule thrown)
  qed
qed

text \<open>A malformed percent escape with no hash; the signed queries \<open>user={bad\<close> and
  \<open>user=null\<close>, whose hashes are valid; no token.\<close>

lemma query_malformed: "URLSearchParams ''%zz=%'' = [(''%zz'', ''%'')]"
  by (simp add: url_eval)

lemma query_bad_user: "URLSearchParams ''user=%7Bbad'' = [(''user'', ''{bad'')]"
  by (simp add: url_eval)

lemma json_bad: "JSON_parse ''{bad'' = None"
  by (simp add: json_eval)

lemma query_null_user: "URLSearchParams ''user=null'' = [(''user'', ''null'')]"
  by (simp add: url_eval)

lemma json_null: "JSON_parse ''null'' = Some JNull"
  by (simp add: json_eval)

theorem verifyTelegramData_never_throws_witness:
  "get (URLSearchParams ''%zz=%'') ''hash'' = None
   \<and> verifyTelegramData_try byteCompare (Some ''T'') ''%zz=%'' = Inl (Error ''Invalid hash'')
   \<and> verifyTelegramData_async byteCompare (Some ''T'') ''%zz=%'' = Inr \<lparr>user = None\<rparr>
   \<and> get (URLSearchParams (signed byteCompare ''T'' ''user=%7Bbad'')) ''hash''
       = Some (calculatedHash byteCompare ''T'' (signed byteCompare ''T'' ''user=%7Bbad''))
   \<and> get (URLSearchParams (signed byteCompare ''T'' ''user=%7Bbad'')) ''user'' = Some ''{bad''
   \<and> JSON_parse ''{bad'' = None
   \<and> verifyTelegramData_try byteCompare (Some ''T'') (signed byteCompare ''T'' ''user=%7Bbad'')
       = Inl SyntaxError
   \<and> verifyTelegramData_async byteCompare (Some ''T'') (signed byteCompare ''T'' ''user=%7Bbad'')
       = Inr \<lparr>user = None\<rparr>
   \<and> get (URLSearchParams (signed byteCompare ''T'' ''user=null'')) ''hash''
       = Some (calculatedHash byteCompare ''T'' (signed byteCompare ''T'' ''user=null''))
   \<and> get (URLSearchParams (signed byteCompare ''T'' ''user=null'')) ''user'' = Some ''null''
   \<and> JSON_parse ''null'' = Some JNull
   \<and> verifyTelegramData_try byteCompare (Some ''T'') (signed byteCompare ''T'' ''user=null'')
       = Inl TypeError
   \<and> verifyTelegramData_async byteCompare (Some ''T'') (signed byteCompare ''T'' ''user=null'')
       = Inr \<lparr>user = None\<rparr>
   \<and> verifyTelegramData_try byteCompare None (signed byteCompare ''T'' ''user=null'')
       = Inl TypeError
   \<and> verifyTelegramData_async byteCompare None (signed byteCompare ''T'' ''user=null'')
       = Inr \<lparr>user = None\<rparr>"
proof -
  let ?b = "signed byteCompare ''T'' ''user=%7Bbad''"
  let ?n = "signed byteCompare ''T'' ''user=null''"
  have a: "get (URLSearchParams ''%zz=%'') ''hash'' = None"
    unfolding query_malformed by (simp add: get_def)
  then have a': "get (URLSearchParams ''%zz=%'') ''hash''
      \<noteq> Some (calculatedHash byteCompare ''T'' ''%zz=%'')"
    by simp
  have bh0: "get (URLSearchParams ''user=%7Bbad'') ''hash'' = None"
    unfolding query_bad_user by (simp add: get_def)
  have bh: "get (URLSearchParams ?b) ''hash'' = Some (calculatedHash byteCompare ''T'' ?b)"
    by (rule signed_hash_valid [OF bh0])
  have bu: "get (URLSearchParams ?b) ''user'' = Some ''{bad''"
    unfolding signed_params query_bad_user by (simp add: get_def)
  have nh0: "get (URLSearchParams ''user=null'') ''hash'' = None"
    unfolding query_null_user by (simp add: get_def)
  have nh: "get (URLSearchParams ?n) ''hash'' = Some (calculatedHash byteCompare ''T'' ?n)"
    by (rule signed_hash_valid [OF nh0])
  have nu: "get (URLSearchParams ?n) ''user'' = Some ''null''"
    unfolding signed_params query_null_user by (simp add: get_def)
  from verifyTelegramData_never_throws [of byteCompare "Some ''T''" "''%zz=%''"] a'
  have 1: "verifyTelegramData_try byteCompare (Some ''T'') ''%zz=%'' = Inl (Error ''Invalid hash'')"
      "verifyTelegramData_async byteCompare (Some ''T'') ''%zz=%'' = Inr \<lparr>user = None\<rparr>"
    by blast+
  from verifyTelegramData_never_throws [of byteCompare "Some ''T''" ?b] bh bu json_bad
  have 2: "verifyTelegramData_try byteCompare (Some ''T'') ?b = Inl SyntaxError"
      "verifyTelegramData_async byteCompare (Some ''T'') ?b = Inr \<lparr>user = None\<rparr>"
    by (metis list.distinct(1))+
  from verifyTelegramData_never_throws [of byteCompare "Some ''T''" ?n] nh nu json_null
  have 3: "verifyTelegramData_try byteCompare (Some ''T'') ?n = Inl TypeError"
      "verifyTelegramData_async byteCompare (Some ''T'') ?n = Inr \<lparr>user = None\<rparr>"
    by (metis list.distinct(1))+
  from verifyTelegramData_never_throws [of byteCompare None ?n]
  have 4: "verifyTelegramData_try byteCompare None ?n = Inl TypeError"
      "verifyTelegramData_async byteCompare None ?n = Inr \<lparr>user = None\<rparr>"
    by blast+
  from a bh bu json_bad nh nu json_null 1 2 3 4 show ?thesis
    by blast
qed

text \<open>
  Claim C3, as amended. In \<open>POST /experience\<close>, when the lookup, \<open>addExperience\<close> and
  \<open>updateStreak\<close> have run: if the level is above the one read before the update,
  \<open>handleLevelUp\<close> is called exactly once in that request, with the user and the final
  level, however many thresholds the update crossed, and the request ends in the world
  that call leaves, answering with the record (or with the \<open>catch\<close> block's answer if the
  call throws); if the level did not rise, \<open>handleLevelUp\<close> is not called and the
  request ends in the world \<open>updateStreak\<close> left.
\<close>

theorem level_up_notified_once_per_request:
  assumes "findOne deps uid w = (Inr found, w1)"
    and "u0 = (case found of None \<Rightarrow> new_UserLevel deps uid | Some u \<Rightarrow> u)"
    and "addExperience deps amount u0 w1 = (Inr u1, w2)"
    and "updateStreak deps u1 w2 = (Inr u2, w3)"
  shows "post_experience deps uid amount w =
     (if userLevel.level u2 > userLevel.level u0
      then (case handleLevelUp deps uid (userLevel.level u2) w3 of
              (Inl e, w4) \<Rightarrow> (caught ''Error updating experience'' e, w4)
            | (Inr done, w4) \<Rightarrow> (Inr (json_response (JsonUserLevel u2)), w4))
      else (Inr (json_response (JsonUserLevel u2)), w3))"
  using post_experience_outcome [of deps uid w found w1 amount u1 w2 u2 w3] assms
  by simp

text \<open>A record at level 1 with 50 of 100 points, last active on day 9; the request is
  made on day 10. With 60 points gained the level rises to 2 and one notification is
  logged; a record with 10 points stays at level 1 and none is logged.\<close>

theorem level_up_notified_once_per_request_witness:
  "post_experience (counting_deps 10 60) ''u1'' None
       ([(''u1'', \<lparr>userLevel.userId = ''u1'', userLevel.level = 1, experience = 50,
                   experienceToNextLevel = 100, streak = 3, lastActive = 9,
                   achievements = []\<rparr>)], [])
     = (Inr \<lparr>status = 200,
             body = JsonUserLevel \<lparr>userLevel.userId = ''u1'', userLevel.level = 2,
                      experience = 10, experienceToNextLevel = 100, streak = 4,
                      lastActive = 10, achievements = []\<rparr>\<rparr>,
        ([(''u1'', \<lparr>userLevel.userId = ''u1'', userLevel.level = 1, experience = 50,
                   experienceToNextLevel = 100, streak = 3, lastActive = 9,
                   achievements = []\<rparr>)], [(''u1'', 2)]))
   \<and> post_experience (counting_deps 10 60) ''u1'' None
       ([(''u1'', \<lparr>userLevel.userId = ''u1'', userLevel.level = 1, experience = 10,
                   experienceToNextLevel = 100, streak = 3, lastActive = 9,
                   achievements = []\<rparr>)], [])
     = (Inr \<lparr>status = 200,
             body = JsonUserLevel \<lparr>userLevel.userId = ''u1'', userLevel.level = 1,
                      experience = 70, experienceToNextLevel = 100, streak = 4,
                      lastActive = 10, achievements = []\<rparr>\<rparr>,
        ([(''u1'', \<lparr>userLevel.userId = ''u1'', userLevel.level = 1, experience = 10,
                   experienceToNextLevel = 100, streak = 3, lastActive = 9,
                   achievements = []\<rparr>)], []))"
proof -
  let ?a = "\<lparr>userLevel.userId = ''u1'', userLevel.level = 1, experience = 50,
                  experienceToNextLevel = 100, streak = 3, lastActive = 9,
                  achievements = []\<rparr>"
  let ?a1 = "?a\<lparr>experience := 10, userLevel.level := 2\<rparr>"
  let ?a2 = "?a1\<lparr>streak := 4, lastActive := 10\<rparr>"
  let ?b = "\<lparr>userLevel.userId = ''u1'', userLevel.level = 1, experience = 10,
                  experienceToNextLevel = 100, streak = 3, lastActive = 9,
                  achievements = []\<rparr>"
  let ?b1 = "?b\<lparr>experience := 70\<rparr>"
  let ?b2 = "?b1\<lparr>streak := 4, lastActive := 10\<rparr>"
  let ?wa = "([(''u1'', ?a)], []) :: (string \<times> userLevel) list \<times> (string \<times> int) list"
  let ?wb = "([(''u1'', ?b)], []) :: (string \<times> userLevel) list \<times> (string \<times> int) list"
  have fa: "findOne (counting_deps 10 60) ''u1'' ?wa = (Inr (Some ?a), ?wa)"
    by (simp add: counting_deps_def)
  have aa: "addExperience (counting_deps 10 60) None ?a ?wa = (Inr ?a1, ?wa)"
    by (simp add: counting_deps_def)
  have sa: "updateStreak (counting_deps 10 60) ?a1 ?wa = (Inr ?a2, ?wa)"
    by (simp add: counting_deps_def updateStreak_spec_def)
  have ha: "handleLevelUp (counting_deps 10 60) ''u1'' 2 ?wa = (Inr (), ([(''u1'', ?a)], [(''u1'', 2)]))"
    by (simp add: counting_deps_def)
  have 1: "post_experience (counting_deps 10 60) ''u1'' None ?wa
      = (Inr (json_response (JsonUserLevel ?a2)), ([(''u1'', ?a)], [(''u1'', 2)]))"
    using level_up_notified_once_per_request [OF fa _ aa sa] ha by simp
  have fb: "findOne (counting_deps 10 60) ''u1'' ?wb = (Inr (Some ?b), ?wb)"
    by (simp add: counting_deps_def)
  have ab: "addExperience (counting_deps 10 60) None ?b ?wb = (Inr ?b1, ?wb)"
    by (simp add: counting_deps_def)
  have sb: "updateStreak (counting_deps 10 60) ?b1 ?wb = (Inr ?b2, ?wb)"
    by (simp add: counting_deps_def updateStreak_spec_def)
  have 2: "post_experience (counting_deps 10 60) ''u1'' None ?wb
      = (Inr (json_response (JsonUserLevel ?b2)), ?wb)"
    using level_up_notified_once_per_request [OF fb _ ab sb] by simp
  from 1 2 show ?thesis
    by (simp add: json_response_def)
qed

text \<open>
  Claim C3 as stated fails: the notification is not sent once per threshold crossing.
  The same record gaining 150 points crosses two thresholds in one request (levels 2
  and 3, 100 points each) and one notification is logged, for level 3.
\<close>

theorem two_crossings_one_notification_counterexample:
  "post_experience (counting_deps 10 150) ''u1'' None
       ([(''u1'', \<lparr>userLevel.userId = ''u1'', userLevel.level = 1, experience = 50,
                   experienceToNextLevel = 100, streak = 3, lastActive = 9,
                   achievements = []\<rparr>)], [])
     = (Inr \<lparr>status = 200,
             body = JsonUserLevel \<lparr>userLevel.userId = ''u1'', userLevel.level = 3,
                      experience = 0, experienceToNextLevel = 100, streak = 4,
                      lastActive = 10, achievements = []\<rparr>\<rparr>,
        ([(''u1'', \<lparr>userLevel.userId = ''u1'', userLevel.level = 1, experience = 50,
                   experienceToNextLevel = 100, streak = 3, lastActive = 9,
                   achievements = []\<rparr>)], [(''u1'', 3)]))"
  by (simp add: post_experience_def post_experience_try_def notifyLevelUp_def counting_deps_def
      updateStreak_spec_def json_response_def)

text \<open>
  Claim C5. For every user record, \<open>updateStreak\<close> on the day after the last active
  day increments the streak by one, and \<open>updateStreak\<close> after one or more skipped days
  resets it (to 1, the day of the update); in both cases that day becomes the last
  active day.
\<close>

theorem streak_increment_and_reset:
  "(today = lastActive u + 1 \<longrightarrow> streak (updateStreak_spec today u) = streak u + 1)
   \<and> (today > lastActive u + 1 \<longrightarrow> streak (updateStreak_spec today u) = 1)
   \<and> (today \<ge> lastActive u + 1 \<longrightarrow> lastActive (updateStreak_spec today u) = today)"
  by (simp add: updateStreak_spec_def)

theorem streak_increment_and_reset_witness:
  "streak (updateStreak_spec 10
       \<lparr>userLevel.userId = ''u1'', userLevel.level = 1, experience = 50,
        experienceToNextLevel = 100, streak = 3, lastActive = 9, achievements = []\<rparr>) = 4
   \<and> streak (updateStreak_spec 10
       \<lparr>userLevel.userId = ''u1'', userLevel.level = 1, experience = 50,
        experienceToNextLevel = 100, streak = 3, lastActive = 7, achievements = []\<rparr>) = 1
   \<and> lastActive (updateStreak_spec 10
       \<lparr>userLevel.userId = ''u1'', userLevel.level = 1, experience = 50,
        experienceToNextLevel = 100, streak = 3, lastActive = 7, achievements = []\<rparr>) = 10"
  using streak_increment_and_reset [of 10
      "\<lparr>userLevel.userId = ''u1'', userLevel.level = 1, experience = 50,
        experienceToNextLevel = 100, streak = 3, lastActive = 9, achievements = []\<rparr>"]
    streak_increment_and_reset [of 10
      "\<lparr>userLevel.userId = ''u1'', userLevel.level = 1, experience = 50,
        experienceToNextLevel = 100, streak = 3, lastActive = 7, achievements = []\<rparr>"]
  by simp

text \<open>
  Claim C7, as amended. Every progress route answers an internal error that is not a
  thrown \<open>null\<close> or \<open>undefined\<close> with status 500, the route's message and the
  error's, instead of letting it escape: \<open>GET /progress\<close> when the lookup or the save
  throws, \<open>POST /experience\<close> when the lookup, \<open>addExperience\<close>, \<open>updateStreak\<close> or
  \<open>handleLevelUp\<close> throws, \<open>POST /sync-telegram\<close> when the sync throws,
  \<open>GET /achievements\<close> when the lookup throws; \<open>GET /achievements\<close> answers 404 when
  there is no progress record.
\<close>

theorem progress_routes_catch_errors:
  assumes "e \<noteq> ThrownNull" and "e \<noteq> ThrownUndefined"
  shows
  "(findOne deps uid w = (Inl e, w1)
      \<longrightarrow> get_progress deps uid w
            = (Inr \<lparr>status = 500, body = JsonError ''Error fetching progress'' e\<rparr>, w1))
   \<and> (findOne deps uid w = (Inr None, w1) \<and> save deps (new_UserLevel deps uid) w1 = (Inl e, w2)
      \<longrightarrow> get_progress deps uid w
            = (Inr \<lparr>status = 500, body = JsonError ''Error fetching progress'' e\<rparr>, w2))
   \<and> (findOne deps uid w = (Inl e, w1)
      \<longrightarrow> post_experience deps uid amount w
            = (Inr \<lparr>status = 500, body = JsonError ''Error updating experience'' e\<rparr>, w1))
   \<and> (findOne deps uid w = (Inr found, w1)
        \<and> addExperience deps amount
             (case found of None \<Rightarrow> new_UserLevel deps uid | Some u \<Rightarrow> u) w1 = (Inl e, w2)
      \<longrightarrow> post_experience deps uid amount w
            = (Inr \<lparr>status = 500, body = JsonError ''Error updating experience'' e\<rparr>, w2))
   \<and> (findOne deps uid w = (Inr found, w1)
        \<and> addExperience deps amount
             (case found of None \<Rightarrow> new_UserLevel deps uid | Some u \<Rightarrow> u) w1 = (Inr u1, w2)
        \<and> updateStreak deps u1 w2 = (Inl e, w3)
      \<longrightarrow> post_experience deps uid amount w
            = (Inr \<lparr>status = 500, body = JsonError ''Error updating experience'' e\<rparr>, w3))
   \<and> (findOne deps uid w = (Inr found, w1)
        \<and> addExperience deps amount
             (case found of None \<Rightarrow> new_UserLevel deps uid | Some u \<Rightarrow> u) w1 = (Inr u1, w2)
        \<and> updateStreak deps u1 w2 = (Inr u2, w3)
        \<and> userLevel.level u2
             > userLevel.level (case found of None \<Rightarrow> new_UserLevel deps uid | Some u \<Rightarrow> u)
        \<and> handleLevelUp deps uid (userLevel.level u2) w3 = (Inl e, w4)
      \<longrightarrow> post_experience deps uid amount w
            = (Inr \<lparr>status = 500, body = JsonError ''Error updating experience'' e\<rparr>, w4))
   \<and> (syncUserProgress deps uid w = (Inl e, w1)
      \<longrightarrow> sync_telegram deps uid w
            = (Inr \<lparr>status = 500, body = JsonError ''Error syncing progress'' e\<rparr>, w1))
   \<and> (findOne deps uid w = (Inl e, w1)
      \<longrightarrow> get_achievements deps uid w
            = (Inr \<lparr>status = 500, body = JsonError ''Error fetching achievements'' e\<rparr>, w1))
   \<and> (findOne deps uid w = (Inr None, w1)
      \<longrightarrow> get_achievements deps uid w
            = (Inr \<lparr>status = 404, body = JsonMessage ''User progress not found''\<rparr>, w1))"
proof -
  note c = caught_error [OF assms]
  show ?thesis
  proof (intro conjI impI)
    assume "findOne deps uid w = (Inl e, w1)"
    then show "get_progress deps uid w
        = (Inr \<lparr>status = 500, body = JsonError ''Error fetching progress'' e\<rparr>, w1)"
      by (simp add: get_progress_findOne_throws c)
  next
    assume "findOne deps uid w = (Inr None, w1) \<and> save deps (new_UserLevel deps uid) w1 = (Inl e, w2)"
    then show "get_progress deps uid w
        = (Inr \<lparr>status = 500, body = JsonError ''Error fetching progress'' e\<rparr>, w2)"
      using get_progress_save_throws [of deps uid w w1 e w2] by (simp add: c)
  next
    assume "findOne deps uid w = (Inl e, w1)"
    then show "post_experience deps uid amount w
        = (Inr \<lparr>status = 500, body = JsonError ''Error updating experience'' e\<rparr>, w1)"
      by (simp add: post_experience_findOne_throws c)
  next
    assume "findOne deps uid w = (Inr found, w1)
        \<and> addExperience deps amount
             (case found of None \<Rightarrow> new_UserLevel deps uid | Some u \<Rightarrow> u) w1 = (Inl e, w2)"
    then show "post_experience deps uid amount w
        = (Inr \<lparr>status = 500, body = JsonError ''Error updating experience'' e\<rparr>, w2)"
      using post_experience_addExperience_throws [of deps uid w found w1 amount e w2]
      by (simp add: c)
  next
    assume "findOne deps uid w = (Inr found, w1)
        \<and> addExperience deps amount
             (case found of None \<Rightarrow> new_UserLevel deps uid | Some u \<Rightarrow> u) w1 = (Inr u1, w2)
        \<and> updateStreak deps u1 w2 = (Inl e, w3)"
    then show "post_experience deps uid amount w
        = (Inr \<lparr>status = 500, body = JsonError ''Error updating experience'' e\<rparr>, w3)"
      using post_experience_updateStreak_throws [of deps uid w found w1 amount u1 w2 e w3]
      by (simp add: c)
  next
    assume "findOne deps uid w = (Inr found, w1)
        \<and> addExperience deps amount
             (case found of None \<Rightarrow> new_UserLevel deps uid | Some u \<Rightarrow> u) w1 = (Inr u1, w2)
        \<and> updateStreak deps u1 w2 = (Inr u2, w3)
        \<and> userLevel.level u2
             > userLevel.level (case found of None \<Rightarrow> new_UserLevel deps uid | Some u \<Rightarrow> u)
        \<and> handleLevelUp deps uid (userLevel.level u2) w3 = (Inl e, w4)"
    then show "post_experience deps uid amount w
        = (Inr \<lparr>status = 500, body = JsonError ''Error updating experience'' e\<rparr>, w4)"
      using post_experience_handleLevelUp_throws [of deps uid w found w1 amount u1 w2 u2 w3 e w4]
      by (simp add: c)
  next
    assume "syncUserProgress deps uid w = (Inl e, w1)"
    then show "sync_telegram deps uid w
        = (Inr \<lparr>status = 500, body = JsonError ''Error syncing progress'' e\<rparr>, w1)"
      by (simp add: sync_telegram_throws c)
  next
    assume "findOne deps uid w = (Inl e, w1)"
    then show "get_achievements deps uid w
        = (Inr \<lparr>status = 500, body = JsonError ''Error fetching achievements'' e\<rparr>, w1)"
      by (simp add: get_achievements_throws c)
  next
    assume "findOne deps uid w = (Inr None, w1)"
    then show "get_achievements deps uid w
        = (Inr \<lparr>status = 404, body = JsonMessage ''User progress not found''\<rparr>, w1)"
      by (simp add: get_achievements_missing)
  qed
qed

text \<open>Each call in turn throws \<open>Error('connection lost')\<close>; with no call failing there is
  no progress record.\<close>

theorem progress_routes_catch_errors_witness:
  "Error ''connection lost'' \<noteq> ThrownNull \<and> Error ''connection lost'' \<noteq> ThrownUndefined
   \<and> get_progress (faulty_deps ''findOne'' (Error ''connection lost'')) ''u1'' ()
     = (Inr \<lparr>status = 500,
             body = JsonError ''Error fetching progress'' (Error ''connection lost'')\<rparr>, ())
   \<and> get_progress (faulty_deps ''save'' (Error ''connection lost'')) ''u1'' ()
     = (Inr \<lparr>status = 500,
             body = JsonError ''Error fetching progress'' (Error ''connection lost'')\<rparr>, ())
   \<and> post_experience (faulty_deps ''findOne'' (Error ''connection lost'')) ''u1'' None ()
     = (Inr \<lparr>status = 500,
             body = JsonError ''Error updating experience'' (Error ''connection lost'')\<rparr>, ())
   \<and> post_experience (faulty_deps ''addExperience'' (Error ''connection lost'')) ''u1'' None ()
     = (Inr \<lparr>status = 500,
             body = JsonError ''Error updating experience'' (Error ''connection lost'')\<rparr>, ())
   \<and> post_experience (faulty_deps ''updateStreak'' (Error ''connection lost'')) ''u1'' None ()
     = (Inr \<lparr>status = 500,
             body = JsonError ''Error updating experience'' (Error ''connection lost'')\<rparr>, ())
   \<and> post_experience (faulty_deps ''handleLevelUp'' (Error ''connection lost'')) ''u1'' None ()
     = (Inr \<lparr>status = 500,
             body = JsonError ''Error updating experience'' (Error ''connection lost'')\<rparr>, ())
   \<and> sync_telegram (faulty_deps ''syncUserProgress'' (Error ''connection lost'')) ''u1'' ()
     = (Inr \<lparr>status = 500,
             body = JsonError ''Error syncing progress'' (Error ''connection lost'')\<rparr>, ())
   \<and> get_achievements (faulty_deps ''findOne'' (Error ''connection lost'')) ''u1'' ()
     = (Inr \<lparr>status = 500,
             body = JsonError ''Error fetching achievements'' (Error ''connection lost'')\<rparr>, ())
   \<and> get_achievements (faulty_deps ''nothing'' (Error ''connection lost'')) ''u1'' ()
     = (Inr \<lparr>status = 404, body = JsonMessage ''User progress not found''\<rparr>, ())"
proof -
  let ?e = "Error ''connection lost''"
  let ?new = "\<lparr>userLevel.userId = ''u1'', userLevel.level = 1, experience = 0,
                 experienceToNextLevel = 100, streak = 0, lastActive = 0, achievements = []\<rparr>"
  let ?up = "?new\<lparr>userLevel.level := 2\<rparr>"
  have n: "?e \<noteq> ThrownNull" "?e \<noteq> ThrownUndefined"
    by simp_all
  note t = progress_routes_catch_errors [OF n, where uid = "''u1''" and w = "()" and ?w1.0 = "()"
      and ?w2.0 = "()" and ?w3.0 = "()" and ?w4.0 = "()" and found = None and amount = None
      and ?u1.0 = ?up and ?u2.0 = ?up]
  have 1: "get_progress (faulty_deps ''findOne'' ?e) ''u1'' ()
      = (Inr \<lparr>status = 500, body = JsonError ''Error fetching progress'' ?e\<rparr>, ())"
    using t [where deps = "faulty_deps ''findOne'' ?e"] by (simp add: faulty_deps_def)
  have 2: "get_progress (faulty_deps ''save'' ?e) ''u1'' ()
      = (Inr \<lparr>status = 500, body = JsonError ''Error fetching progress'' ?e\<rparr>, ())"
    using t [where deps = "faulty_deps ''save'' ?e"] by (simp add: faulty_deps_def)
  have 3: "post_experience (faulty_deps ''findOne'' ?e) ''u1'' None ()
      = (Inr \<lparr>status = 500, body = JsonError ''Error updating experience'' ?e\<rparr>, ())"
    using t [where deps = "faulty_deps ''findOne'' ?e"] by (simp add: faulty_deps_def)
  have 4: "post_experience (faulty_deps ''addExperience'' ?e) ''u1'' None ()
      = (Inr \<lparr>status = 500, body = JsonError ''Error updating experience'' ?e\<rparr>, ())"
    using t [where deps = "faulty_deps ''addExperience'' ?e"] by (simp add: faulty_deps_def)
  have 5: "post_experience (faulty_deps ''updateStreak'' ?e) ''u1'' None ()
      = (Inr \<lparr>status = 500, body = JsonError ''Error updating experience'' ?e\<rparr>, ())"
    using t [where deps = "faulty_deps ''updateStreak'' ?e"] by (simp add: faulty_deps_def)
  have 6: "post_experience (faulty_deps ''handleLevelUp'' ?e) ''u1'' None ()
      = (Inr \<lparr>status = 500, body = JsonError ''Error updating experience'' ?e\<rparr>, ())"
    using t [where deps = "faulty_deps ''handleLevelUp'' ?e"] by (simp add: faulty_deps_def)
  have 7: "sync_telegram (faulty_deps ''syncUserProgress'' ?e) ''u1'' ()
      = (Inr \<lparr>status = 500, body = JsonError ''Error syncing progress'' ?e\<rparr>, ())"
    using t [where deps = "faulty_deps ''syncUserProgress'' ?e"] by (simp add: faulty_deps_def)
  have 8: "get_achievements (faulty_deps ''findOne'' ?e) ''u1'' ()
      = (Inr \<lparr>status = 500, body = JsonError ''Error fetching achievements'' ?e\<rparr>, ())"
    using t [where deps = "faulty_deps ''findOne'' ?e"] by (simp add: faulty_deps_def)
  have 9: "get_achievements (faulty_deps ''nothing'' ?e) ''u1'' ()
      = (Inr \<lparr>status = 404, body = JsonMessage ''User progress not found''\<rparr>, ())"
    using t [where deps = "faulty_deps ''nothing'' ?e"] by (simp add: faulty_deps_def)
  from n 1 2 3 4 5 6 7 8 9 show ?thesis
    by blast
qed

text \<open>
  Claim C7 as stated fails for a rejection that carries no error object: when
  \<open>findOne\<close> rejects with \<open>null\<close>, the \<open>catch\<close> block of \<open>GET /progress\<close> throws a
  \<open>TypeError\<close> reading \<open>error.message\<close>, no response is sent and the exception
  escapes the handler.
\<close>

theorem thrown_null_escapes_counterexample:
  "get_progress (faulty_deps ''findOne'' ThrownNull) ''u1'' () = (Inl TypeError, ())"
  by (simp add: get_progress_def get_progress_try_def faulty_deps_def caught_def)

text \<open>
  Claim C8. Records are created on first use. \<open>GET /progress\<close>, finding no
  \<open>UserLevel\<close> record of the requesting user, saves a new one and answers with it.
  \<open>telegramAuth\<close>, when the lookup by the verified \<open>telegram_id\<close> gives no row (no
  error, or the error \<open>PGRST116\<close>), inserts a row with the user's \<open>telegram_id\<close>,
  \<open>username\<close>, \<open>first_name\<close> and \<open>last_name\<close>, balance 0, level \<open>Alpha Pup\<close> and
  \<open>level_points\<close> 0, and goes on with the id of the inserted row.
\<close>

theorem records_created_on_first_use:
  "(findOne deps uid w = (Inr None, w1) \<and> save deps (new_UserLevel deps uid) w1 = (Inr saved, w2)
      \<longrightarrow> get_progress deps uid w = (Inr (json_response (JsonUserLevel saved)), w2))
   \<and> (initData \<noteq> []
        \<and> user (verifyTelegramData localeCompare TELEGRAM_BOT_TOKEN initData) = Some u
        \<and> select_single db (tg_user.id' u) t = (Inr found, t1)
        \<and> data found = None
        \<and> (\<forall>userError. error found = Some userError \<longrightarrow> code userError = ''PGRST116'')
        \<and> insert_single db
              \<lparr>telegram_id = tg_user.id' u,
               new_user.username = tg_user.username u,
               new_user.first_name = tg_user.first_name u,
               new_user.last_name = tg_user.last_name u,
               balance = 0, new_user.level = ''Alpha Pup'', level_points = 0\<rparr> t1
            = (Inr \<lparr>data = Some newUser, error = None\<rparr>, t2)
        \<and> jwt_sign db (user_row.id' newUser) (tg_user.id' u) = Inr jwt
      \<longrightarrow> telegramAuth db localeCompare TELEGRAM_BOT_TOKEN (Some initData) t
            = (Next \<lparr>req_user.id' = user_row.id' newUser, telegramId = tg_user.id' u\<rparr> jwt, t2))"
proof (intro conjI impI)
  assume "findOne deps uid w = (Inr None, w1) \<and> save deps (new_UserLevel deps uid) w1 = (Inr saved, w2)"
  then show "get_progress deps uid w = (Inr (json_response (JsonUserLevel saved)), w2)"
    by (simp add: get_progress_creates)
next
  assume a: "initData \<noteq> []
        \<and> user (verifyTelegramData localeCompare TELEGRAM_BOT_TOKEN initData) = Some u
        \<and> select_single db (tg_user.id' u) t = (Inr found, t1)
        \<and> data found = None
        \<and> (\<forall>userError. error found = Some userError \<longrightarrow> code userError = ''PGRST116'')
        \<and> insert_single db
              \<lparr>telegram_id = tg_user.id' u,
               new_user.username = tg_user.username u,
               new_user.first_name = tg_user.first_name u,
               new_user.last_name = tg_user.last_name u,
               balance = 0, new_user.level = ''Alpha Pup'', level_points = 0\<rparr> t1
            = (Inr \<lparr>data = Some newUser, error = None\<rparr>, t2)
        \<and> jwt_sign db (user_row.id' newUser) (tg_user.id' u) = Inr jwt"
  then have c: "createUser db u t1
      = (Inr (Next \<lparr>req_user.id' = user_row.id' newUser, telegramId = tg_user.id' u\<rparr> jwt), t2)"
    by (simp add: createUser_def newUserRow_def issueToken_def)
  have "getOrCreateUser db u t = createUser db u t1"
    using a by (cases "error found") (simp_all add: getOrCreateUser_def)
  with c a show "telegramAuth db localeCompare TELEGRAM_BOT_TOKEN (Some initData) t
            = (Next \<lparr>req_user.id' = user_row.id' newUser, telegramId = tg_user.id' u\<rparr> jwt, t2)"
    by (simp add: telegramAuth_verified)
qed

text \<open>An empty collection and an empty table; the user of the signed query
  \<open>user={"id":7}\<close>.\<close>

theorem records_created_on_first_use_witness:
  "get_progress (memory_deps 10) ''u1'' []
     = (Inr \<lparr>status = 200,
         body = JsonUserLevel \<lparr>userLevel.userId = ''u1'', userLevel.level = 1, experience = 0,
                  experienceToNextLevel = 100, streak = 0, lastActive = 0, achievements = []\<rparr>\<rparr>,
        [(''u1'', \<lparr>userLevel.userId = ''u1'', userLevel.level = 1, experience = 0,
                  experienceToNextLevel = 100, streak = 0, lastActive = 0, achievements = []\<rparr>)])
   \<and> telegramAuth memory_table byteCompare (Some ''T'')
       (Some (signed byteCompare ''T'' ''user=%7B%22id%22%3A7%7D''))
       []
     = (Next \<lparr>req_user.id' = ''row'', telegramId = Some (JNumber ''7'')\<rparr> ''token for row'',
        [\<lparr>telegram_id = Some (JNumber ''7''), new_user.username = None,
          new_user.first_name = None, new_user.last_name = None, balance = 0,
          new_user.level = ''Alpha Pup'', level_points = 0, user_row.id' = ''row''\<rparr>])"
proof -
  let ?new = "\<lparr>userLevel.userId = ''u1'', userLevel.level = 1, experience = 0,
                  experienceToNextLevel = 100, streak = 0, lastActive = 0, achievements = []\<rparr>"
  let ?s = "signed byteCompare ''T'' ''user=%7B%22id%22%3A7%7D''"
  let ?u = "\<lparr>tg_user.id' = Some (JNumber ''7''), tg_user.username = None,
          tg_user.first_name = None, tg_user.last_name = None\<rparr>"
  let ?row = "\<lparr>telegram_id = Some (JNumber ''7''), new_user.username = None,
          new_user.first_name = None, new_user.last_name = None, balance = 0,
          new_user.level = ''Alpha Pup'', level_points = 0, user_row.id' = ''row''\<rparr>"
  have f: "findOne (memory_deps 10) ''u1'' [] = (Inr None, [])"
    by (simp add: memory_deps_def)
  have s: "save (memory_deps 10) (new_UserLevel (memory_deps 10) ''u1'') [] = (Inr ?new, [(''u1'', ?new)])"
    by (simp add: memory_deps_def)
  have ne: "?s \<noteq> []"
    by (simp add: signed_def)
  have v: "user (verifyTelegramData byteCompare (Some ''T'') ?s) = Some ?u"
    by (simp add: signed_user_7_verified)
  have sel: "select_single memory_table (tg_user.id' ?u) []
      = (Inr \<lparr>data = None, error = Some \<lparr>code = ''PGRST116'', message = ''no single row''\<rparr>\<rparr>, [])"
    by (simp add: memory_table_def)
  have ins: "insert_single memory_table
              \<lparr>telegram_id = tg_user.id' ?u,
               new_user.username = tg_user.username ?u,
               new_user.first_name = tg_user.first_name ?u,
               new_user.last_name = tg_user.last_name ?u,
               balance = 0, new_user.level = ''Alpha Pup'', level_points = 0\<rparr> []
            = (Inr \<lparr>data = Some ?row, error = None\<rparr>, [?row])"
    by (simp add: memory_table_def Let_def)
  have j: "jwt_sign memory_table (user_row.id' ?row) (tg_user.id' ?u) = Inr ''token for row''"
    by (simp add: memory_table_def)
  from records_created_on_first_use [where deps = "memory_deps 10" and uid = "''u1''"
      and w = "[]" and ?w1.0 = "[]" and saved = ?new and ?w2.0 = "[(''u1'', ?new)]",
      THEN conjunct1] f s
  have 1: "get_progress (memory_deps 10) ''u1'' []
      = (Inr (json_response (JsonUserLevel ?new)), [(''u1'', ?new)])"
    by simp
  from records_created_on_first_use [where initData = ?s and localeCompare = byteCompare
      and TELEGRAM_BOT_TOKEN = "Some ''T''" and u = ?u and db = memory_table and t = "[]"
      and ?found = "\<lparr>data = None, error = Some \<lparr>code = ''PGRST116'', message = ''no single row''\<rparr>\<rparr>"
      and ?t1.0 = "[]" and newUser = ?row and ?t2.0 = "[?row]" and jwt = "''token for row''",
      THEN conjunct2]
    ne v sel ins j
  have 2: "telegramAuth memory_table byteCompare (Some ''T'') (Some ?s) []
      = (Next \<lparr>req_user.id' = user_row.id' ?row, telegramId = tg_user.id' ?u\<rparr> ''token for row'', [?row])"
    by simp
  from 1 2 show ?thesis
    by (simp add: json_response_def)
qed

text \<open>
  Claim C10. For every ad found, \<open>getAdMetrics\<close> reports the lengths of the view and
  click logs, the numbers of distinct users in them, and a \<open>ctr\<close> that is 0 when there
  are no views and (clicks / views) * 100 otherwise; it never divides by zero.
\<close>

theorem getAdMetrics_ctr_guarded:
  assumes "findById adId = Inr (Some a)"
  shows "getAdMetrics findById adId =
       Inr \<lparr>totalViews = length (views a),
            totalClicks = length (clicks a),
            uniqueViewers = card (log_entry.userId ` set (views a)),
            uniqueClickers = card (log_entry.userId ` set (clicks a)),
            ctr = (if views a = [] then Num 0
                   else Product (Quotient (Num (length (clicks a))) (Num (length (views a))))
                          (Num 100))\<rparr>
     \<and> (\<forall>m. getAdMetrics findById adId = Inr m \<longrightarrow> \<not> divides_by_zero (ctr m))"
  using assms by (simp add: getAdMetrics_def length_remdups_card_conv)

theorem getAdMetrics_ctr_guarded_witness:
  "getAdMetrics
     (\<lambda>i. Inr (Some \<lparr>views = [\<lparr>log_entry.userId = ''a'', timestamp = 1\<rparr>,
                                \<lparr>log_entry.userId = ''b'', timestamp = 2\<rparr>,
                                \<lparr>log_entry.userId = ''a'', timestamp = 3\<rparr>],
                       clicks = [\<lparr>log_entry.userId = ''a'', timestamp = 4\<rparr>]\<rparr>)) ''ad1''
     = Inr \<lparr>totalViews = 3, totalClicks = 1, uniqueViewers = 2, uniqueClickers = 1,
            ctr = Product (Quotient (Num 1) (Num 3)) (Num 100)\<rparr>
   \<and> getAdMetrics (\<lambda>i. Inr (Some \<lparr>views = [], clicks = []\<rparr>)) ''ad2''
     = Inr \<lparr>totalViews = 0, totalClicks = 0, uniqueViewers = 0, uniqueClickers = 0, ctr = Num 0\<rparr>"
proof -
  let ?a = "\<lparr>views = [\<lparr>log_entry.userId = ''a'', timestamp = 1\<rparr>,
                                \<lparr>log_entry.userId = ''b'', timestamp = 2\<rparr>,
                                \<lparr>log_entry.userId = ''a'', timestamp = 3\<rparr>],
                       clicks = [\<lparr>log_entry.userId = ''a'', timestamp = 4\<rparr>]\<rparr>"
  let ?e = "\<lparr>views = [], clicks = []\<rparr> :: ad"
  have 1: "getAdMetrics (\<lambda>i. Inr (Some ?a)) ''ad1''
      = Inr \<lparr>totalViews = 3, totalClicks = 1, uniqueViewers = 2, uniqueClickers = 1,
            ctr = Product (Quotient (Num 1) (Num 3)) (Num 100)\<rparr>"
    using getAdMetrics_ctr_guarded [of "\<lambda>i. Inr (Some ?a)" "''ad1''" ?a]
    by (simp add: card_insert_if)
  have 2: "getAdMetrics (\<lambda>i. Inr (Some ?e)) ''ad2''
      = Inr \<lparr>totalViews = 0, totalClicks = 0, uniqueViewers = 0, uniqueClickers = 0, ctr = Num 0\<rparr>"
    using getAdMetrics_ctr_guarded [of "\<lambda>i. Inr (Some ?e)" "''ad2''" ?e] by simp
  from 1 2 show ?thesis
    by simp
qed

end
